theory Spec2Isabelle
  imports Complex_Main
begin

section \<open>JavaScript numbers\<close>

text \<open>
  The gallery computes with JavaScript numbers. They are modelled as the real numbers
  extended with the two infinities and NaN, so that a division by zero, an empty
  \<^verbatim>\<open>Math.min()\<close> and a comparison with NaN behave as they do in the source.
  Two abstractions are made: finite results are exact (no rounding to a double, no
  overflow of a finite result), and zero carries no sign (a zero divisor counts as +0).
\<close>

datatype jsnum = Fin real | PInf | NInf | NaN

fun js_neg :: "jsnum \<Rightarrow> jsnum" where
  "js_neg (Fin a) = Fin (- a)"
| "js_neg PInf = NInf"
| "js_neg NInf = PInf"
| "js_neg NaN = NaN"

fun js_add :: "jsnum \<Rightarrow> jsnum \<Rightarrow> jsnum" where
  "js_add (Fin a) (Fin b) = Fin (a + b)"
| "js_add NaN y = NaN"
| "js_add x NaN = NaN"
| "js_add PInf NInf = NaN"
| "js_add NInf PInf = NaN"
| "js_add PInf y = PInf"
| "js_add x PInf = PInf"
| "js_add NInf y = NInf"
| "js_add x NInf = NInf"

definition js_sub :: "jsnum \<Rightarrow> jsnum \<Rightarrow> jsnum" where
  "js_sub x y = js_add x (js_neg y)"

fun js_mul :: "jsnum \<Rightarrow> jsnum \<Rightarrow> jsnum" where
  "js_mul (Fin a) (Fin b) = Fin (a * b)"
| "js_mul NaN y = NaN"
| "js_mul x NaN = NaN"
| "js_mul PInf PInf = PInf"
| "js_mul PInf NInf = NInf"
| "js_mul NInf PInf = NInf"
| "js_mul NInf NInf = PInf"
| "js_mul PInf (Fin b) = (if b = 0 then NaN else if 0 < b then PInf else NInf)"
| "js_mul NInf (Fin b) = (if b = 0 then NaN else if 0 < b then NInf else PInf)"
| "js_mul (Fin a) PInf = (if a = 0 then NaN else if 0 < a then PInf else NInf)"
| "js_mul (Fin a) NInf = (if a = 0 then NaN else if 0 < a then NInf else PInf)"

fun js_div :: "jsnum \<Rightarrow> jsnum \<Rightarrow> jsnum" where
  "js_div (Fin a) (Fin b) =
     (if b = 0 then (if a = 0 then NaN else if 0 < a then PInf else NInf)
      else Fin (a / b))"
| "js_div NaN y = NaN"
| "js_div x NaN = NaN"
| "js_div (Fin a) PInf = Fin 0"
| "js_div (Fin a) NInf = Fin 0"
| "js_div PInf (Fin b) = (if 0 \<le> b then PInf else NInf)"
| "js_div NInf (Fin b) = (if 0 \<le> b then NInf else PInf)"
| "js_div PInf PInf = NaN"
| "js_div PInf NInf = NaN"
| "js_div NInf PInf = NaN"
| "js_div NInf NInf = NaN"

text \<open>The remainder \<^verbatim>\<open>a % b\<close>: the sign follows the dividend, the quotient is truncated.\<close>

definition trunc :: "real \<Rightarrow> real" where
  "trunc x = (if 0 \<le> x then of_int \<lfloor>x\<rfloor> else of_int \<lceil>x\<rceil>)"

fun js_mod :: "jsnum \<Rightarrow> jsnum \<Rightarrow> jsnum" where
  "js_mod (Fin a) (Fin b) = (if b = 0 then NaN else Fin (a - b * trunc (a / b)))"
| "js_mod (Fin a) PInf = Fin a"
| "js_mod (Fin a) NInf = Fin a"
| "js_mod x y = NaN"

text \<open>Comparisons: every comparison with NaN is false.\<close>

fun js_lt :: "jsnum \<Rightarrow> jsnum \<Rightarrow> bool" where
  "js_lt (Fin a) (Fin b) = (a < b)"
| "js_lt NaN y = False"
| "js_lt x NaN = False"
| "js_lt PInf y = False"
| "js_lt x NInf = False"
| "js_lt NInf y = True"
| "js_lt x PInf = True"

definition js_gt :: "jsnum \<Rightarrow> jsnum \<Rightarrow> bool" where
  "js_gt x y = js_lt y x"

text \<open>Strict equality \<^verbatim>\<open>===\<close> on numbers: NaN is equal to nothing.\<close>

definition js_seq :: "jsnum \<Rightarrow> jsnum \<Rightarrow> bool" where
  "js_seq x y = (x \<noteq> NaN \<and> x = y)"

fun Math_abs :: "jsnum \<Rightarrow> jsnum" where
  "Math_abs (Fin a) = Fin \<bar>a\<bar>"
| "Math_abs PInf = PInf"
| "Math_abs NInf = PInf"
| "Math_abs NaN = NaN"

fun Math_floor :: "jsnum \<Rightarrow> jsnum" where
  "Math_floor (Fin a) = Fin (of_int \<lfloor>a\<rfloor>)"
| "Math_floor x = x"

fun Math_ceil :: "jsnum \<Rightarrow> jsnum" where
  "Math_ceil (Fin a) = Fin (of_int \<lceil>a\<rceil>)"
| "Math_ceil x = x"

text \<open>\<^verbatim>\<open>Math.max\<close> and \<^verbatim>\<open>Math.min\<close> of two arguments: NaN if either is NaN.\<close>

definition Math_max2 :: "jsnum \<Rightarrow> jsnum \<Rightarrow> jsnum" where
  "Math_max2 x y = (if x = NaN \<or> y = NaN then NaN else if js_lt x y then y else x)"

definition Math_min2 :: "jsnum \<Rightarrow> jsnum \<Rightarrow> jsnum" where
  "Math_min2 x y = (if x = NaN \<or> y = NaN then NaN else if js_lt y x then y else x)"

text \<open>
  \<^verbatim>\<open>Math.max(...xs)\<close> and \<^verbatim>\<open>Math.min(...xs)\<close> of a spread array: with no
  argument they are \<open>-Infinity\<close> and \<open>Infinity\<close>.
\<close>

definition Math_max :: "jsnum list \<Rightarrow> jsnum" where
  "Math_max xs = foldl Math_max2 NInf xs"

definition Math_min :: "jsnum list \<Rightarrow> jsnum" where
  "Math_min xs = foldl Math_min2 PInf xs"

text \<open>
  A property that may be absent: \<open>None\<close> is \<^verbatim>\<open>undefined\<close>. A value is falsy when it
  is undefined, zero or NaN; in arithmetic \<^verbatim>\<open>undefined\<close> converts to NaN.
\<close>

fun truthy :: "jsnum option \<Rightarrow> bool" where
  "truthy None = False"
| "truthy (Some (Fin a)) = (a \<noteq> 0)"
| "truthy (Some NaN) = False"
| "truthy (Some x) = True"

fun ToNumber :: "jsnum option \<Rightarrow> jsnum" where
  "ToNumber None = NaN"
| "ToNumber (Some x) = x"

section \<open>Data model\<close>

datatype error = ContainerNotFound | InvalidCharacterError | RangeError | TypeError

datatype layout_mode = Justified | Masonry | Grid

datatype last_row = LastLeft | LastCenter | LastRight | LastFill | LastHide

datatype column_spec = Auto | Columns jsnum

record item =
  src :: string
  item_width :: "jsnum option"
  item_height :: "jsnum option"
  aspectRatio :: "jsnum option"

record options =
  layout :: layout_mode
  gap :: jsnum
  targetRowHeight :: jsnum
  lastRowBehavior :: last_row
  columnWidth :: jsnum
  columns :: column_spec
  className :: string
  virtualize :: bool
  buffer :: jsnum

record box =
  box_left :: jsnum
  box_top :: jsnum
  box_width :: jsnum
  box_height :: jsnum

text \<open>An entry of \<^verbatim>\<open>this.geometry\<close>: \<^verbatim>\<open>{ ...box, itemIndex: i }\<close>.\<close>

record placed_box = box +
  itemIndex :: nat

record layout_result =
  boxes :: "box list"
  containerHeight :: jsnum

section \<open>Ingestion\<close>

text \<open>
  The callback of \<^verbatim>\<open>items.map\<close> in \<^verbatim>\<open>addItems\<close>: the aspect ratio is taken from
  the item, else computed from width and height, else set to 1. The quotient is exact
  here; the quotient of two doubles can also round to zero or to an infinity, so what
  is said of it below goes through its truthiness and not through its value.
\<close>

definition normalizeItem :: "item \<Rightarrow> item" where
  "normalizeItem it =
     (let ar = aspectRatio it;
          ar1 = (if \<not> truthy ar \<and> truthy (item_width it) \<and> truthy (item_height it)
                 then Some (js_div (ToNumber (item_width it)) (ToNumber (item_height it)))
                 else ar);
          ar2 = (if \<not> truthy ar1 then Some (Fin 1) else ar1)
      in it\<lparr>aspectRatio := ar2\<rparr>)"

definition addItems :: "item list \<Rightarrow> item list \<Rightarrow> item list" where
  "addItems stored new = stored @ map normalizeItem new"

section \<open>Justified layout\<close>

text \<open>The elements of an array at the indices \<open>i, \<dots>, b\<close> (both included).\<close>

definition rowSlice :: "'a list \<Rightarrow> nat \<Rightarrow> nat \<Rightarrow> 'a list" where
  "rowSlice xs i b = take (Suc b - i) (drop i xs)"

record row_metrics =
  rowHeight :: jsnum
  score :: jsnum

text \<open>
  An array element read into a sum: past the end of the array the element is
  \<^verbatim>\<open>undefined\<close>, which adds as NaN.
\<close>

definition elementAt :: "jsnum list \<Rightarrow> nat \<Rightarrow> jsnum" where
  "elementAt xs k = (if k < length xs then xs ! k else NaN)"

text \<open>
  The helper \<^verbatim>\<open>calculateRow(startIndex, endIndex)\<close> declared inside
  \<^verbatim>\<open>_computeJustifiedLayout\<close>: the height at which the items of the candidate row
  fill the container width, and its squared distance to the target height. Its loop
  runs over the indices from \<open>startIndex\<close> to \<open>endIndex\<close>, also past the last item.
\<close>

definition calculateRow ::
  "jsnum list \<Rightarrow> jsnum \<Rightarrow> jsnum \<Rightarrow> jsnum \<Rightarrow> nat \<Rightarrow> nat \<Rightarrow> row_metrics" where
  "calculateRow aspectRatios containerWidth g targetH startIndex endIndex =
     (let totalAspect = foldl js_add (Fin 0)
                          (map (elementAt aspectRatios) [startIndex..<Suc endIndex]);
          count = int endIndex - int startIndex + 1;
          totalGap = js_mul (Fin (of_int (count - 1))) g;
          availableWidth = js_sub containerWidth totalGap;
          h = js_div availableWidth totalAspect;
          d = Math_abs (js_sub h targetH)
      in \<lparr>rowHeight = h, score = js_mul d d\<rparr>)"

text \<open>
  The inner loop \<^verbatim>\<open>while (j < items.length)\<close>: it extends the candidate row that
  starts at \<open>i\<close> by item \<open>j\<close>, stops when the row height falls below half the target,
  and returns \<^verbatim>\<open>bestBreakIndex\<close> (\<open>None\<close> is the source's \<open>-1\<close>).
\<close>

function scanRow ::
  "jsnum list \<Rightarrow> jsnum \<Rightarrow> jsnum \<Rightarrow> jsnum \<Rightarrow> nat \<Rightarrow> nat \<Rightarrow> jsnum \<Rightarrow> nat option \<Rightarrow> jsnum
   \<Rightarrow> nat option" where
  "scanRow aspectRatios containerWidth g targetH i j currentAspect bestBreakIndex minScore =
     (if j < length aspectRatios then
        let currentAspect' = js_add currentAspect (aspectRatios ! j);
            count = j - i + 1;
            totalGap = js_mul (Fin (real (count - 1))) g;
            availableWidth = js_sub containerWidth totalGap;
            h = js_div availableWidth currentAspect'
        in if js_lt h (js_mul targetH (Fin (1 / 2))) then bestBreakIndex
           else
             let sc = Math_abs (js_sub h targetH)
             in if js_lt sc minScore
                then scanRow aspectRatios containerWidth g targetH i (j + 1) currentAspect'
                       (Some j) sc
                else scanRow aspectRatios containerWidth g targetH i (j + 1) currentAspect'
                       bestBreakIndex minScore
      else bestBreakIndex)"
  by pat_completeness auto
termination
  by (relation "measure (\<lambda>(ars, W, g, T, i, j, ca, b, m). length ars - j)") auto

declare scanRow.simps [simp del]

text \<open>
  The loop \<^verbatim>\<open>for (let k = i; k <= bestBreakIndex; k++)\<close> that creates the boxes of
  one row, over the aspect ratios of the row.
\<close>

fun rowBoxes :: "jsnum \<Rightarrow> jsnum \<Rightarrow> jsnum \<Rightarrow> jsnum \<Rightarrow> jsnum list \<Rightarrow> box list" where
  "rowBoxes h g rtop lft [] = []"
| "rowBoxes h g rtop lft (a # as) =
     (let w = js_mul h a
      in \<lparr>box_left = lft, box_top = rtop, box_width = w, box_height = h\<rparr>
           # rowBoxes h g rtop (js_add lft (js_add w g)) as)"

lemma scanRow_bounds:
  "scanRow ars W g T i j ca best ms = Some b \<Longrightarrow> i \<le> j
   \<Longrightarrow> (\<And>b'. best = Some b' \<Longrightarrow> i \<le> b' \<and> b' < length ars)
   \<Longrightarrow> i \<le> b \<and> b < length ars"
proof (induction ars W g T i j ca best ms rule: scanRow.induct)
  case (1 ars W g T i j ca best ms)
  show ?case
  proof (cases "j < length ars")
    case False
    with "1.prems" show ?thesis by (simp add: scanRow.simps)
  next
    case True
    let ?ca = "js_add ca (ars ! j)"
    let ?h = "js_div (js_sub W (js_mul (Fin (real (j - i + 1 - 1))) g)) ?ca"
    show ?thesis
    proof (cases "js_lt ?h (js_mul T (Fin (1 / 2)))")
      case True
      with \<open>j < length ars\<close> "1.prems" show ?thesis
        by (simp add: scanRow.simps [of ars W g T i j] Let_def)
    next
      case stay: False
      let ?sc = "Math_abs (js_sub ?h T)"
      show ?thesis
      proof (cases "js_lt ?sc ms")
        case True
        with stay \<open>j < length ars\<close> "1.prems"(1)
        have run: "scanRow ars W g T i (j + 1) ?ca (Some j) ?sc = Some b"
          by (simp add: scanRow.simps [of ars W g T i j] Let_def)
        show ?thesis
          by (rule "1.IH"(1) [OF \<open>j < length ars\<close> refl refl refl refl refl stay refl True run])
             (use \<open>j < length ars\<close> "1.prems"(2) in auto)
      next
        case False
        with stay \<open>j < length ars\<close> "1.prems"(1)
        have run: "scanRow ars W g T i (j + 1) ?ca best ms = Some b"
          by (simp add: scanRow.simps [of ars W g T i j] Let_def)
        show ?thesis
          by (rule "1.IH"(2) [OF \<open>j < length ars\<close> refl refl refl refl refl stay refl False run])
             (use "1.prems"(2,3) in auto)
      qed
    qed
  qed
qed

lemma scanRow_start:
  "scanRow ars W g T i i (Fin 0) None PInf = Some b \<Longrightarrow> i \<le> b \<and> b < length ars"
  using scanRow_bounds [of ars W g T i i "Fin 0" None PInf b] by simp

text \<open>
  The metrics of the row \<open>i, \<dots>, bestBreakIndex\<close> once it is chosen: the sum of its
  aspect ratios, the width taken by its gaps, its height and the offset of its first box.
  A row that ends at the last item is the last row: with \<^verbatim>\<open>'left'\<close>,
  \<^verbatim>\<open>'center'\<close> and \<^verbatim>\<open>'right'\<close> its height is reset to the target and the
  remaining width gives the offset; any other row keeps the stretched height.
\<close>

definition finalAspect :: "jsnum list \<Rightarrow> nat \<Rightarrow> nat \<Rightarrow> jsnum" where
  "finalAspect aspectRatios i bestBreakIndex =
     foldl js_add (Fin 0) (rowSlice aspectRatios i bestBreakIndex)"

definition totalGap :: "jsnum \<Rightarrow> nat \<Rightarrow> nat \<Rightarrow> jsnum" where
  "totalGap g i bestBreakIndex =
     (let finalRowItemsCount = bestBreakIndex - i + 1
      in js_mul (Fin (real (finalRowItemsCount - 1))) g)"

definition finalRowHeight ::
  "jsnum list \<Rightarrow> jsnum \<Rightarrow> jsnum \<Rightarrow> jsnum \<Rightarrow> last_row \<Rightarrow> nat \<Rightarrow> nat \<Rightarrow> jsnum" where
  "finalRowHeight aspectRatios containerWidth g targetH behavior i bestBreakIndex =
     (let isLastRow = (bestBreakIndex = length aspectRatios - 1);
          stretched = js_div (js_sub containerWidth (totalGap g i bestBreakIndex))
                             (finalAspect aspectRatios i bestBreakIndex)
      in if isLastRow \<and>
            (behavior = LastLeft \<or> behavior = LastCenter \<or> behavior = LastRight)
         then targetH else stretched)"

definition offsetX ::
  "jsnum list \<Rightarrow> jsnum \<Rightarrow> jsnum \<Rightarrow> jsnum \<Rightarrow> last_row \<Rightarrow> nat \<Rightarrow> nat \<Rightarrow> jsnum" where
  "offsetX aspectRatios containerWidth g targetH behavior i bestBreakIndex =
     (let isLastRow = (bestBreakIndex = length aspectRatios - 1);
          usedWidth = js_add (js_mul (finalAspect aspectRatios i bestBreakIndex) targetH)
                             (totalGap g i bestBreakIndex);
          remainingSpace = js_sub containerWidth usedWidth
      in if isLastRow \<and> behavior = LastCenter
         then Math_max2 (Fin 0) (js_div remainingSpace (Fin 2))
         else if isLastRow \<and> behavior = LastRight
         then Math_max2 (Fin 0) remainingSpace
         else Fin 0)"

text \<open>
  The outer loop \<^verbatim>\<open>while (i < items.length)\<close>. It returns the boxes and the
  running \<^verbatim>\<open>top\<close>. With \<^verbatim>\<open>'hide'\<close> the loop is left at the last row, before
  any box of that row is created. When the scan found no break, the item \<open>i\<close> is
  placed alone at the target height.
\<close>

function layoutRows ::
  "jsnum list \<Rightarrow> jsnum \<Rightarrow> jsnum \<Rightarrow> jsnum \<Rightarrow> last_row \<Rightarrow> nat \<Rightarrow> jsnum \<Rightarrow> box list
   \<Rightarrow> box list \<times> jsnum" where
  "layoutRows aspectRatios containerWidth g targetH behavior i rtop bxs =
     (if i < length aspectRatios then
        (case scanRow aspectRatios containerWidth g targetH i i (Fin 0) None PInf of
           Some bestBreakIndex \<Rightarrow>
             if bestBreakIndex = length aspectRatios - 1 \<and> behavior = LastHide
             then (bxs, rtop)
             else
               let h = finalRowHeight aspectRatios containerWidth g targetH behavior i
                         bestBreakIndex;
                   lft = offsetX aspectRatios containerWidth g targetH behavior i
                           bestBreakIndex
               in layoutRows aspectRatios containerWidth g targetH behavior
                    (bestBreakIndex + 1) (js_add rtop (js_add h g))
                    (bxs @ rowBoxes h g rtop lft (rowSlice aspectRatios i bestBreakIndex))
         | None \<Rightarrow>
             let w = js_mul targetH (aspectRatios ! i)
             in layoutRows aspectRatios containerWidth g targetH behavior
                  (i + 1) (js_add rtop (js_add targetH g))
                  (bxs @ [\<lparr>box_left = Fin 0, box_top = rtop, box_width = w,
                            box_height = targetH\<rparr>]))
      else (bxs, rtop))"
  by pat_completeness auto
termination
  by (relation "measure (\<lambda>(ars, W, g, T, bh, i, rtop, bxs). length ars - i)")
     (auto dest!: scanRow_start)

declare layoutRows.simps [simp del]

definition computeJustifiedLayout :: "item list \<Rightarrow> jsnum \<Rightarrow> options \<Rightarrow> layout_result" where
  "computeJustifiedLayout its containerWidth opts =
     (let aspectRatios = map (\<lambda>it. ToNumber (aspectRatio it)) its;
          (bxs, rtop) = layoutRows aspectRatios containerWidth (gap opts) (targetRowHeight opts)
                          (lastRowBehavior opts) 0 (Fin 0) []
      in \<lparr>boxes = bxs, containerHeight = rtop\<rparr>)"

section \<open>Masonry and grid layout\<close>

text \<open>
  The column count and the column width, computed the same way at the head of
  \<^verbatim>\<open>_computeMasonryLayout\<close> and of \<^verbatim>\<open>_computeGridLayout\<close>.
\<close>

definition resolveColumns :: "jsnum \<Rightarrow> options \<Rightarrow> jsnum \<times> jsnum" where
  "resolveColumns containerWidth opts =
     (case columns opts of
        Auto \<Rightarrow>
          let colW0 = columnWidth opts;
              colCount0 = Math_floor (js_div (js_add containerWidth (gap opts))
                                             (js_add colW0 (gap opts)));
              colCount = Math_max2 (Fin 1) colCount0;
              colW = js_div (js_sub containerWidth (js_mul (js_sub colCount (Fin 1)) (gap opts)))
                            colCount
          in (colCount, colW)
      | Columns n \<Rightarrow>
          (n, js_div (js_sub containerWidth (js_mul (js_sub n (Fin 1)) (gap opts))) n))"

text \<open>
  \<^verbatim>\<open>new Array(colCount).fill(0)\<close>: a length that is not an integer between 0 and
  \<open>2\<^sup>3\<^sup>2 - 1\<close> raises a RangeError.
\<close>

definition newArray :: "jsnum \<Rightarrow> error + jsnum list" where
  "newArray n =
     (case n of
        Fin a \<Rightarrow>
          if of_int \<lfloor>a\<rfloor> = a \<and> 0 \<le> a \<and> a \<le> 4294967295
          then Inr (replicate (nat \<lfloor>a\<rfloor>) (Fin 0))
          else Inl RangeError
      | _ \<Rightarrow> Inl RangeError)"

text \<open>\<^verbatim>\<open>xs.indexOf(v)\<close>: the first index whose element is strictly equal to \<open>v\<close>, else \<open>-1\<close>.\<close>

fun indexOfFrom :: "jsnum list \<Rightarrow> jsnum \<Rightarrow> nat \<Rightarrow> int" where
  "indexOfFrom [] v k = - 1"
| "indexOfFrom (x # xs) v k = (if js_seq x v then int k else indexOfFrom xs v (k + 1))"

definition indexOf :: "jsnum list \<Rightarrow> jsnum \<Rightarrow> int" where
  "indexOf xs v = indexOfFrom xs v 0"

text \<open>
  \<^verbatim>\<open>xs[k] += d\<close>. At \<open>k = -1\<close> the assignment creates a property named "-1" that is
  not an element of the array: no element changes, and neither the spread nor
  \<^verbatim>\<open>indexOf\<close> sees it.
\<close>

definition addAt :: "jsnum list \<Rightarrow> int \<Rightarrow> jsnum \<Rightarrow> jsnum list" where
  "addAt xs k d =
     (if 0 \<le> k \<and> nat k < length xs then xs[nat k := js_add (xs ! nat k) d] else xs)"

text \<open>
  A call with a spread array, \<^verbatim>\<open>f(...xs)\<close>, passes one argument per element. An
  engine accepts only so many arguments in one call and throws a RangeError beyond; the
  limit \<open>maxArgs\<close> belongs to the engine, not to the program, and is a parameter here.
\<close>

definition spreadCall :: "nat \<Rightarrow> (jsnum list \<Rightarrow> jsnum) \<Rightarrow> jsnum list \<Rightarrow> error + jsnum" where
  "spreadCall maxArgs f xs = (if length xs \<le> maxArgs then Inr (f xs) else Inl RangeError)"

text \<open>
  The body of \<^verbatim>\<open>items.forEach\<close> in the masonry engine, over the remaining items.
  It begins with \<^verbatim>\<open>Math.min(...colHeights)\<close>.
\<close>

fun placeMasonry ::
  "nat \<Rightarrow> jsnum \<Rightarrow> jsnum \<Rightarrow> item list \<Rightarrow> jsnum list \<Rightarrow> box list
   \<Rightarrow> error + (box list \<times> jsnum list)" where
  "placeMasonry maxArgs colW g [] colHeights bxs = Inr (bxs, colHeights)"
| "placeMasonry maxArgs colW g (it # its) colHeights bxs =
     (case spreadCall maxArgs Math_min colHeights of
        Inl e \<Rightarrow> Inl e
      | Inr minH \<Rightarrow>
          let colIndex = indexOf colHeights minH;
              h = js_div colW (ToNumber (aspectRatio it))
          in placeMasonry maxArgs colW g its (addAt colHeights colIndex (js_add h g))
               (bxs @ [\<lparr>box_left = js_mul (Fin (of_int colIndex)) (js_add colW g),
                         box_top = minH, box_width = colW, box_height = h\<rparr>]))"

text \<open>
  The masonry engine: the column array is allocated, the items are placed, and the
  container height is \<^verbatim>\<open>Math.max(...colHeights)\<close>, computed also when there is no
  item.
\<close>

definition computeMasonryLayout ::
  "nat \<Rightarrow> item list \<Rightarrow> jsnum \<Rightarrow> options \<Rightarrow> error + layout_result" where
  "computeMasonryLayout maxArgs its containerWidth opts =
     (let (colCount, colW) = resolveColumns containerWidth opts
      in case newArray colCount of
           Inl e \<Rightarrow> Inl e
         | Inr colHeights0 \<Rightarrow>
             (case placeMasonry maxArgs colW (gap opts) its colHeights0 [] of
                Inl e \<Rightarrow> Inl e
              | Inr (bxs, colHeights) \<Rightarrow>
                  (case spreadCall maxArgs Math_max colHeights of
                     Inl e \<Rightarrow> Inl e
                   | Inr h \<Rightarrow> Inr \<lparr>boxes = bxs, containerHeight = h\<rparr>)))"

text \<open>The box of item \<open>i\<close> in the grid: the callback of \<^verbatim>\<open>items.forEach((item, i) => \<dots>)\<close>.\<close>

definition gridBox :: "jsnum \<Rightarrow> jsnum \<Rightarrow> jsnum \<Rightarrow> jsnum \<Rightarrow> nat \<Rightarrow> box" where
  "gridBox colCount colW itemH g i =
     (let colIndex = js_mod (Fin (real i)) colCount;
          rowIndex = Math_floor (js_div (Fin (real i)) colCount)
      in \<lparr>box_left = js_mul colIndex (js_add colW g),
          box_top = js_mul rowIndex (js_add itemH g),
          box_width = colW, box_height = itemH\<rparr>)"

definition computeGridLayout :: "item list \<Rightarrow> jsnum \<Rightarrow> options \<Rightarrow> layout_result" where
  "computeGridLayout its containerWidth opts =
     (let (colCount, colW) = resolveColumns containerWidth opts;
          itemH = colW;
          bxs = map (gridBox colCount colW itemH (gap opts)) [0..<length its];
          rows = Math_ceil (js_div (Fin (real (length its))) colCount)
      in \<lparr>boxes = bxs,
          containerHeight = js_sub (js_mul rows (js_add itemH (gap opts))) (gap opts)\<rparr>)"

text \<open>The choice of the engine in \<^verbatim>\<open>render\<close>. Only the masonry engine can throw.\<close>

definition computeLayout ::
  "nat \<Rightarrow> item list \<Rightarrow> jsnum \<Rightarrow> options \<Rightarrow> error + layout_result" where
  "computeLayout maxArgs its containerWidth opts =
     (case layout opts of
        Justified \<Rightarrow> Inr (computeJustifiedLayout its containerWidth opts)
      | Masonry \<Rightarrow> computeMasonryLayout maxArgs its containerWidth opts
      | Grid \<Rightarrow> Inr (computeGridLayout its containerWidth opts))"

section \<open>Construction\<close>

text \<open>
  The options a caller passes: every property may be absent. \<^verbatim>\<open>Object.assign\<close>
  copies the properties that are present over the defaults; nothing is checked.
\<close>

record user_options =
  u_layout :: "layout_mode option"
  u_gap :: "jsnum option"
  u_targetRowHeight :: "jsnum option"
  u_lastRowBehavior :: "last_row option"
  u_columnWidth :: "jsnum option"
  u_columns :: "column_spec option"
  u_className :: "string option"
  u_virtualize :: "bool option"
  u_buffer :: "jsnum option"

definition defaults :: options where
  "defaults =
     \<lparr>layout = Justified, gap = Fin 10, targetRowHeight = Fin 300, lastRowBehavior = LastLeft,
      columnWidth = Fin 300, columns = Auto, className = [], virtualize = True,
      buffer = Fin 500\<rparr>"

definition assign :: "options \<Rightarrow> user_options \<Rightarrow> options" where
  "assign d u =
     \<lparr>layout = (case u_layout u of None \<Rightarrow> layout d | Some v \<Rightarrow> v),
      gap = (case u_gap u of None \<Rightarrow> gap d | Some v \<Rightarrow> v),
      targetRowHeight = (case u_targetRowHeight u of None \<Rightarrow> targetRowHeight d | Some v \<Rightarrow> v),
      lastRowBehavior = (case u_lastRowBehavior u of None \<Rightarrow> lastRowBehavior d | Some v \<Rightarrow> v),
      columnWidth = (case u_columnWidth u of None \<Rightarrow> columnWidth d | Some v \<Rightarrow> v),
      columns = (case u_columns u of None \<Rightarrow> columns d | Some v \<Rightarrow> v),
      className = (case u_className u of None \<Rightarrow> className d | Some v \<Rightarrow> v),
      virtualize = (case u_virtualize u of None \<Rightarrow> virtualize d | Some v \<Rightarrow> v),
      buffer = (case u_buffer u of None \<Rightarrow> buffer d | Some v \<Rightarrow> v)\<rparr>"

record gallery =
  gallery_options :: options
  gallery_items :: "item list"
  geometry :: "placed_box list"
  renderedIndices :: "nat list"

text \<open>
  \<^verbatim>\<open>_init\<close>, as far as it can fail: a class name that is not empty is added to the
  class list of the container, and \<^verbatim>\<open>classList.add\<close> throws an
  InvalidCharacterError for a token that contains ASCII whitespace. The observer and the
  scroll listener that \<^verbatim>\<open>_init\<close> installs are not part of the model.
\<close>

definition asciiWhitespace :: "char \<Rightarrow> bool" where
  "asciiWhitespace c \<longleftrightarrow>
     c = CHR 0x09 \<or> c = CHR 0x0A \<or> c = CHR 0x0C \<or> c = CHR 0x0D \<or> c = CHR 0x20"

definition init :: "options \<Rightarrow> error + unit" where
  "init opts =
     (if className opts \<noteq> [] \<and> list_ex asciiWhitespace (className opts)
      then Inl InvalidCharacterError else Inr ())"

text \<open>
  The constructor: it fails when the container is not found and when \<^verbatim>\<open>_init\<close>
  does; it reads none of the layout options. The set \<^verbatim>\<open>renderedIndices\<close> is kept
  as the list of its elements in insertion order.
\<close>

definition constructor :: "bool \<Rightarrow> user_options \<Rightarrow> error + gallery" where
  "constructor containerFound u =
     (if \<not> containerFound then Inl ContainerNotFound
      else
        case init (assign defaults u) of
          Inl e \<Rightarrow> Inl e
        | Inr _ \<Rightarrow>
            Inr \<lparr>gallery_options = assign defaults u, gallery_items = [], geometry = [],
                  renderedIndices = []\<rparr>)"

section \<open>Visibility and the rendered set\<close>

text \<open>What \<^verbatim>\<open>_updateVisibleItems\<close> reads from the window and the container.\<close>

record viewport =
  scrollY :: jsnum
  innerHeight :: jsnum
  rectTop :: jsnum

definition visibleBand :: "jsnum \<Rightarrow> jsnum \<Rightarrow> jsnum \<Rightarrow> jsnum \<Rightarrow> jsnum \<times> jsnum" where
  "visibleBand scrollTop viewportHeight containerTop buf =
     (let startY = Math_max2 (Fin 0) (js_sub (js_sub scrollTop containerTop) buf);
          endY = js_add (js_add (js_sub scrollTop containerTop) viewportHeight) buf
      in (startY, endY))"

definition inBand :: "placed_box \<Rightarrow> jsnum \<Rightarrow> jsnum \<Rightarrow> bool" where
  "inBand b startY endY =
     (js_gt (js_add (box_top b) (box_height b)) startY \<and> js_lt (box_top b) endY)"

text \<open>\<^verbatim>\<open>Set.prototype.add\<close> on the list of elements.\<close>

definition setAdd :: "nat list \<Rightarrow> nat \<Rightarrow> nat list" where
  "setAdd xs x = (if x \<in> set xs then xs else xs @ [x])"

text \<open>The filter \<^verbatim>\<open>this.geometry.forEach\<close> that collects \<^verbatim>\<open>indicesToRender\<close>.\<close>

fun collectVisible :: "placed_box list \<Rightarrow> jsnum \<Rightarrow> jsnum \<Rightarrow> nat list \<Rightarrow> nat list" where
  "collectVisible [] startY endY acc = acc"
| "collectVisible (b # bs) startY endY acc =
     collectVisible bs startY endY
       (if inBand b startY endY then setAdd acc (itemIndex b) else acc)"

definition resolveVisible ::
  "placed_box list \<Rightarrow> jsnum \<Rightarrow> jsnum \<Rightarrow> jsnum \<Rightarrow> jsnum \<Rightarrow> nat list" where
  "resolveVisible geom scrollTop viewportHeight containerTop buf =
     (let (startY, endY) = visibleBand scrollTop viewportHeight containerTop buf
      in collectVisible geom startY endY [])"

text \<open>
  The first loop of the diff, over \<^verbatim>\<open>indicesToRender\<close>: an index that is not
  rendered is mounted and added. \<^verbatim>\<open>_mountItem\<close> reads \<^verbatim>\<open>box.itemIndex\<close> of
  \<^verbatim>\<open>this.geometry[index]\<close>, which throws a TypeError when there is no such entry.
  The mounted element is recorded by that index.
\<close>

fun mountNew ::
  "placed_box list \<Rightarrow> nat list \<Rightarrow> nat list \<Rightarrow> nat list \<Rightarrow> error + (nat list \<times> nat list)" where
  "mountNew geom [] rendered mounted = Inr (rendered, mounted)"
| "mountNew geom (index # rest) rendered mounted =
     (if index \<notin> set rendered then
        (if index < length geom
         then mountNew geom rest (setAdd rendered index) (mounted @ [itemIndex (geom ! index)])
         else Inl TypeError)
      else mountNew geom rest rendered mounted)"

text \<open>
  The second loop, \<^verbatim>\<open>this.renderedIndices.forEach\<close>: an index that is not to be
  rendered is unmounted and deleted. The callback deletes only the element being visited,
  so the loop visits the elements the set had when the loop began.
\<close>

fun unmountOld ::
  "nat list \<Rightarrow> nat list \<Rightarrow> nat list \<Rightarrow> nat list \<Rightarrow> nat list \<times> nat list" where
  "unmountOld toRender [] rendered unmounted = (rendered, unmounted)"
| "unmountOld toRender (index # rest) rendered unmounted =
     (if index \<notin> set toRender
      then unmountOld toRender rest (removeAll index rendered) (unmounted @ [index])
      else unmountOld toRender rest rendered unmounted)"

record render_diff =
  rendered_after :: "nat list"
  mountList :: "nat list"
  unmountList :: "nat list"

definition applyDiff :: "placed_box list \<Rightarrow> nat list \<Rightarrow> nat list \<Rightarrow> error + render_diff" where
  "applyDiff geom rendered toRender =
     (case mountNew geom toRender rendered [] of
        Inl e \<Rightarrow> Inl e
      | Inr (rendered1, mounted) \<Rightarrow>
          let (rendered2, unmounted) = unmountOld toRender rendered1 rendered1 []
          in Inr \<lparr>rendered_after = rendered2, mountList = mounted, unmountList = unmounted\<rparr>)"

text \<open>
  \<^verbatim>\<open>_updateVisibleItems\<close>. Without virtualization it calls
  \<^verbatim>\<open>this._renderItems(this.geometry)\<close>; the class declares no method of that name and
  extends no other class, so the call throws a TypeError (\<^verbatim>\<open>this._renderItems\<close> is
  not a function).
\<close>

definition updateVisibleItems :: "gallery \<Rightarrow> viewport \<Rightarrow> error + (gallery \<times> render_diff)" where
  "updateVisibleItems gal vp =
     (if \<not> virtualize (gallery_options gal) then Inl TypeError
      else
        let scrollTop = scrollY vp;
            viewportHeight = innerHeight vp;
            buf = buffer (gallery_options gal);
            containerTop = js_add (rectTop vp) scrollTop;
            toRender = resolveVisible (geometry gal) scrollTop viewportHeight containerTop buf
        in case applyDiff (geometry gal) (renderedIndices gal) toRender of
             Inl e \<Rightarrow> Inl e
           | Inr d \<Rightarrow> Inr (gal\<lparr>renderedIndices := rendered_after d\<rparr>, d))"

text \<open>\<^verbatim>\<open>result.boxes.map((box, i) => ({ ...box, itemIndex: i }))\<close>.\<close>

definition indexBoxes :: "box list \<Rightarrow> placed_box list" where
  "indexBoxes bxs =
     map (\<lambda>(i, b). \<lparr>box_left = box_left b, box_top = box_top b, box_width = box_width b,
                     box_height = box_height b, itemIndex = i\<rparr>) (enumerate 0 bxs)"

text \<open>
  \<^verbatim>\<open>render\<close>, given the engine's argument limit and the container's
  \<^verbatim>\<open>clientWidth\<close>: nothing happens without items; otherwise the rendered set and the geometry are cleared, the layout is computed
  and the visible items are mounted.
\<close>

definition render ::
  "nat \<Rightarrow> gallery \<Rightarrow> jsnum \<Rightarrow> viewport \<Rightarrow> error + (gallery \<times> render_diff)" where
  "render maxArgs gal clientWidth vp =
     (if gallery_items gal = []
      then Inr (gal, \<lparr>rendered_after = renderedIndices gal, mountList = [], unmountList = []\<rparr>)
      else
        case computeLayout maxArgs (gallery_items gal) clientWidth (gallery_options gal) of
          Inl e \<Rightarrow> Inl e
        | Inr result \<Rightarrow>
            updateVisibleItems
              (gal\<lparr>renderedIndices := [], geometry := indexBoxes (boxes result)\<rparr>) vp)"

text \<open>An item given by its aspect ratio alone, as the scenarios of the specification use.\<close>

definition ratioItem :: "real \<Rightarrow> item" where
  "ratioItem a =
     \<lparr>src = [], item_width = None, item_height = None, aspectRatio = Some (Fin a)\<rparr>"

text \<open>No option supplied: the gallery runs on the defaults.\<close>

definition noOptions :: user_options where
  "noOptions =
     \<lparr>u_layout = None, u_gap = None, u_targetRowHeight = None, u_lastRowBehavior = None,
      u_columnWidth = None, u_columns = None, u_className = None, u_virtualize = None,
      u_buffer = None\<rparr>"

section \<open>Predicates of the specification\<close>

text \<open>A supplied number that is not negative (an absent one counts), and a positive one.\<close>

definition notNegative :: "jsnum option \<Rightarrow> bool" where
  "notNegative x = (case x of None \<Rightarrow> True | Some v \<Rightarrow> \<not> js_lt v (Fin 0))"

definition positive :: "jsnum option \<Rightarrow> bool" where
  "positive x = (case x of None \<Rightarrow> False | Some v \<Rightarrow> js_lt (Fin 0) v)"

text \<open>
  A valid configuration for a container width, on an engine that accepts \<open>maxArgs\<close>
  arguments in a call: finite numbers, a gap that is not negative, a positive target
  row height and column width, and a column count that is \<^verbatim>\<open>'auto'\<close> or a positive
  integer. The column count must be a length an array can have (below \<open>2\<^sup>3\<^sup>2\<close>) and
  must not exceed the argument limit; for \<^verbatim>\<open>'auto'\<close> the count is the quotient
  rounded down, and at least 1.
\<close>

definition validConfig :: "nat \<Rightarrow> jsnum \<Rightarrow> options \<Rightarrow> bool" where
  "validConfig maxArgs containerWidth opts =
     (case (containerWidth, gap opts, targetRowHeight opts, columnWidth opts) of
        (Fin w, Fin g, Fin t, Fin c) \<Rightarrow>
          0 \<le> w \<and> 0 \<le> g \<and> 0 < t \<and> 0 < c \<and>
          (case columns opts of
             Auto \<Rightarrow>
               (w + g) / (c + g) < 4294967296
               \<and> max 1 \<lfloor>(w + g) / (c + g)\<rfloor> \<le> int maxArgs
           | Columns (Fin n) \<Rightarrow>
               of_int \<lfloor>n\<rfloor> = n \<and> 1 \<le> n \<and> n \<le> 4294967295 \<and> n \<le> real maxArgs
           | Columns _ \<Rightarrow> False)
      | _ \<Rightarrow> False)"

text \<open>
  Box \<open>k\<close> is computed from aspect ratio \<open>k\<close>: in the justified layout the width of a
  box is its height times the aspect ratio of its item.
\<close>

definition ratioBoxes :: "jsnum list \<Rightarrow> box list \<Rightarrow> bool" where
  "ratioBoxes ars bxs \<longleftrightarrow>
     (\<forall>k < length bxs. box_width (bxs ! k) = js_mul (box_height (bxs ! k)) (ars ! k))"

section \<open>Properties of the row loop\<close>

lemma rowBoxes_length: "length (rowBoxes h g rtop lft as) = length as"
  by (induction as arbitrary: lft) (simp_all add: Let_def)

lemma rowBoxes_nth:
  "k < length as \<Longrightarrow>
   box_width (rowBoxes h g rtop lft as ! k) = js_mul h (as ! k)
   \<and> box_height (rowBoxes h g rtop lft as ! k) = h
   \<and> box_top (rowBoxes h g rtop lft as ! k) = rtop"
  by (induction as arbitrary: lft k) (auto simp: Let_def nth_Cons split: nat.splits)

lemma rowBoxes_top: "d \<in> set (rowBoxes h g rtop lft as) \<Longrightarrow> box_top d = rtop"
  by (induction as arbitrary: lft) (auto simp: Let_def)

lemma rowSlice_length: "i \<le> b \<Longrightarrow> b < length xs \<Longrightarrow> length (rowSlice xs i b) = Suc b - i"
  by (simp add: rowSlice_def)

lemma rowSlice_nth: "b < length xs \<Longrightarrow> k < Suc b - i \<Longrightarrow> rowSlice xs i b ! k = xs ! (i + k)"
  by (simp add: rowSlice_def)

lemma layoutRows_done:
  "\<not> i < length ars \<Longrightarrow> layoutRows ars W g T bh i rtop bxs = (bxs, rtop)"
  by (simp add: layoutRows.simps)

lemma layoutRows_fallback:
  "i < length ars \<Longrightarrow> scanRow ars W g T i i (Fin 0) None PInf = None \<Longrightarrow>
   layoutRows ars W g T bh i rtop bxs =
     layoutRows ars W g T bh (i + 1) (js_add rtop (js_add T g))
       (bxs @ [\<lparr>box_left = Fin 0, box_top = rtop, box_width = js_mul T (ars ! i),
                 box_height = T\<rparr>])"
  by (simp add: layoutRows.simps [of ars W g T bh i])

lemma layoutRows_hide:
  "i < length ars \<Longrightarrow> scanRow ars W g T i i (Fin 0) None PInf = Some (length ars - 1) \<Longrightarrow>
   layoutRows ars W g T LastHide i rtop bxs = (bxs, rtop)"
  by (simp add: layoutRows.simps [of ars W g T LastHide i])

lemma layoutRows_row:
  "i < length ars \<Longrightarrow> scanRow ars W g T i i (Fin 0) None PInf = Some b \<Longrightarrow>
   \<not> (b = length ars - 1 \<and> bh = LastHide) \<Longrightarrow>
   layoutRows ars W g T bh i rtop bxs =
     layoutRows ars W g T bh (b + 1) (js_add rtop (js_add (finalRowHeight ars W g T bh i b) g))
       (bxs @ rowBoxes (finalRowHeight ars W g T bh i b) g rtop (offsetX ars W g T bh i b)
                (rowSlice ars i b))"
  by (subst layoutRows.simps) (auto simp: Let_def)

lemma ratioBoxes_append_row:
  assumes "ratioBoxes ars bxs" "length bxs = i" "i \<le> b" "b < length ars"
  shows "ratioBoxes ars (bxs @ rowBoxes h g rtop lft (rowSlice ars i b))"
  unfolding ratioBoxes_def
proof (intro allI impI)
  fix k assume k: "k < length (bxs @ rowBoxes h g rtop lft (rowSlice ars i b))"
  show "box_width ((bxs @ rowBoxes h g rtop lft (rowSlice ars i b)) ! k) =
        js_mul (box_height ((bxs @ rowBoxes h g rtop lft (rowSlice ars i b)) ! k)) (ars ! k)"
  proof (cases "k < i")
    case True
    with assms(1,2) show ?thesis
      by (simp add: ratioBoxes_def nth_append)
  next
    case False
    with k assms(2,3,4) have kk: "k - i < Suc b - i"
      by (simp add: rowBoxes_length rowSlice_length)
    then have "k - i < length (rowSlice ars i b)"
      using assms(3,4) by (simp add: rowSlice_length)
    from rowBoxes_nth [OF this, of h g rtop lft] rowSlice_nth [OF assms(4) kk] False assms(2)
    show ?thesis
      by (simp add: nth_append)
  qed
qed

lemma ratioBoxes_append_one:
  assumes "ratioBoxes ars bxs" "length bxs = i"
  shows "ratioBoxes ars (bxs @ [\<lparr>box_left = l, box_top = t, box_width = js_mul T (ars ! i),
                 box_height = T\<rparr>])"
  using assms by (auto simp: ratioBoxes_def nth_append less_Suc_eq)

lemma layoutRows_cover:
  "bh \<noteq> LastHide \<Longrightarrow> length bxs = i \<Longrightarrow> i \<le> length ars \<Longrightarrow> ratioBoxes ars bxs \<Longrightarrow>
   length (fst (layoutRows ars W g T bh i rtop bxs)) = length ars
   \<and> ratioBoxes ars (fst (layoutRows ars W g T bh i rtop bxs))"
proof (induction "length ars - i" arbitrary: i rtop bxs rule: less_induct)
  case less
  show ?case
  proof (cases "i < length ars")
    case False
    with less.prems show ?thesis
      by (simp add: layoutRows_done)
  next
    case True
    show ?thesis
    proof (cases "scanRow ars W g T i i (Fin 0) None PInf")
      case None
      have "length ars - (i + 1) < length ars - i"
        using True by simp
      from less.hyps [OF this less.prems(1)] less.prems ratioBoxes_append_one [OF less.prems(4,2)]
        True
      show ?thesis
        by (simp add: layoutRows_fallback [OF True None])
    next
      case (Some b)
      from scanRow_start [OF Some] have b: "i \<le> b" "b < length ars"
        by simp_all
      have dec: "length ars - (b + 1) < length ars - i"
        using b by simp
      have step: "\<not> (b = length ars - 1 \<and> bh = LastHide)"
        using less.prems(1) by simp
      have len: "length (bxs @ rowBoxes (finalRowHeight ars W g T bh i b) g rtop
                     (offsetX ars W g T bh i b) (rowSlice ars i b)) = b + 1"
        using b less.prems(2) by (simp add: rowBoxes_length rowSlice_length)
      from less.hyps [OF dec less.prems(1) len _
          ratioBoxes_append_row [OF less.prems(4,2) b]] b
      show ?thesis
        by (simp add: layoutRows_row [OF True Some step])
    qed
  qed
qed

lemma finalRow_inner:
  "b \<noteq> length ars - 1 \<Longrightarrow>
   finalRowHeight ars W g T bh i b = finalRowHeight ars W g T LastHide i b
   \<and> offsetX ars W g T bh i b = offsetX ars W g T LastHide i b"
  by (simp add: finalRowHeight_def offsetX_def Let_def)

lemma layoutRows_hide_prefix:
  "bh \<noteq> LastHide \<Longrightarrow>
   \<exists>dropped.
     fst (layoutRows ars W g T bh i rtop bxs)
       = fst (layoutRows ars W g T LastHide i rtop bxs) @ dropped
     \<and> (\<forall>d \<in> set dropped. box_top d = snd (layoutRows ars W g T LastHide i rtop bxs))
     \<and> (dropped = [] \<longrightarrow> snd (layoutRows ars W g T bh i rtop bxs)
                           = snd (layoutRows ars W g T LastHide i rtop bxs))"
proof (induction "length ars - i" arbitrary: i rtop bxs rule: less_induct)
  case less
  show ?case
  proof (cases "i < length ars")
    case False
    then show ?thesis
      by (simp add: layoutRows_done)
  next
    case True
    show ?thesis
    proof (cases "scanRow ars W g T i i (Fin 0) None PInf")
      case None
      have "length ars - (i + 1) < length ars - i"
        using True by simp
      from less.hyps [OF this less.prems] show ?thesis
        by (simp add: layoutRows_fallback [OF True None])
    next
      case (Some b)
      from scanRow_start [OF Some] have b: "i \<le> b" "b < length ars"
        by simp_all
      show ?thesis
      proof (cases "b = length ars - 1")
        case last: True
        let ?row = "rowBoxes (finalRowHeight ars W g T bh i b) g rtop (offsetX ars W g T bh i b)
                      (rowSlice ars i b)"
        have hide: "layoutRows ars W g T LastHide i rtop bxs = (bxs, rtop)"
          using layoutRows_hide [OF True] Some last by simp
        have "\<not> (b = length ars - 1 \<and> bh = LastHide)"
          using less.prems by simp
        from layoutRows_row [OF True Some this] last b
        have shown: "layoutRows ars W g T bh i rtop bxs
                = (bxs @ ?row, js_add rtop (js_add (finalRowHeight ars W g T bh i b) g))"
          by (simp add: layoutRows_done)
        have "length ?row = Suc b - i"
          using b by (simp add: rowBoxes_length rowSlice_length)
        with b have "?row \<noteq> []"
          by auto
        with hide shown rowBoxes_top show ?thesis
          by auto
      next
        case inner: False
        have dec: "length ars - (b + 1) < length ars - i"
          using b by simp
        have s1: "\<not> (b = length ars - 1 \<and> bh = LastHide)"
          and s2: "\<not> (b = length ars - 1 \<and> LastHide = LastHide)"
          using inner by simp_all
        from less.hyps [OF dec less.prems] finalRow_inner [OF inner, of W g T bh i]
        show ?thesis
          by (simp add: layoutRows_row [OF True Some s1] layoutRows_row [OF True Some s2])
      qed
    qed
  qed
qed

lemma layoutRows_hide_ratio:
  "length bxs = i \<Longrightarrow> i \<le> length ars \<Longrightarrow> ratioBoxes ars bxs \<Longrightarrow>
   ratioBoxes ars (fst (layoutRows ars W g T LastHide i rtop bxs))"
proof (induction "length ars - i" arbitrary: i rtop bxs rule: less_induct)
  case less
  show ?case
  proof (cases "i < length ars")
    case False
    with less.prems show ?thesis
      by (simp add: layoutRows_done)
  next
    case True
    show ?thesis
    proof (cases "scanRow ars W g T i i (Fin 0) None PInf")
      case None
      have "length ars - (i + 1) < length ars - i"
        using True by simp
      from less.hyps [OF this] less.prems ratioBoxes_append_one [OF less.prems(3,1)] True
      show ?thesis
        by (simp add: layoutRows_fallback [OF True None])
    next
      case (Some b)
      from scanRow_start [OF Some] have b: "i \<le> b" "b < length ars"
        by simp_all
      show ?thesis
      proof (cases "b = length ars - 1")
        case True
        with layoutRows_hide [OF \<open>i < length ars\<close>] Some less.prems(3) show ?thesis
          by simp
      next
        case False
        have dec: "length ars - (b + 1) < length ars - i"
          using b by simp
        have step: "\<not> (b = length ars - 1 \<and> LastHide = LastHide)"
          using False by simp
        have len: "length (bxs @ rowBoxes (finalRowHeight ars W g T LastHide i b) g rtop
                     (offsetX ars W g T LastHide i b) (rowSlice ars i b)) = b + 1"
          using b less.prems(1) by (simp add: rowBoxes_length rowSlice_length)
        from less.hyps [OF dec len _ ratioBoxes_append_row [OF less.prems(3,1) b]] b
        show ?thesis
          by (simp add: layoutRows_row [OF True Some step])
      qed
    qed
  qed
qed

section \<open>Properties of the column engines\<close>

lemma newArray_ok:
  "of_int \<lfloor>a\<rfloor> = a \<Longrightarrow> 0 \<le> a \<Longrightarrow> a \<le> 4294967295 \<Longrightarrow>
   newArray (Fin a) = Inr (replicate (nat \<lfloor>a\<rfloor>) (Fin 0))"
  by (simp add: newArray_def)

lemma validConfig_columns:
  assumes "validConfig maxArgs W opts"
  shows "\<exists>a. fst (resolveColumns W opts) = Fin a \<and> of_int \<lfloor>a\<rfloor> = a \<and> 1 \<le> a
           \<and> a \<le> 4294967295 \<and> nat \<lfloor>a\<rfloor> \<le> maxArgs"
proof -
  from assms obtain w g c where
    W: "W = Fin w" and g: "gap opts = Fin g" and c: "columnWidth opts = Fin c"
    and pos: "0 \<le> w" "0 \<le> g" "0 < c"
    and cols: "case columns opts of
             Auto \<Rightarrow>
               (w + g) / (c + g) < 4294967296
               \<and> max 1 \<lfloor>(w + g) / (c + g)\<rfloor> \<le> int maxArgs
           | Columns (Fin n) \<Rightarrow>
               of_int \<lfloor>n\<rfloor> = n \<and> 1 \<le> n \<and> n \<le> 4294967295 \<and> n \<le> real maxArgs
           | Columns _ \<Rightarrow> False"
    by (auto simp: validConfig_def split: jsnum.splits)
  show ?thesis
  proof (cases "columns opts")
    case Auto
    let ?x = "(w + g) / (c + g)"
    from cols Auto have small: "?x < 4294967296" and lim: "max 1 \<lfloor>?x\<rfloor> \<le> int maxArgs"
      by simp_all
    from small have fl: "\<lfloor>?x\<rfloor> \<le> 4294967295"
      by (simp add: floor_le_iff)
    have cg: "c + g \<noteq> 0"
      using pos by simp
    have cnt: "fst (resolveColumns W opts) = Math_max2 (Fin 1) (Fin (of_int \<lfloor>?x\<rfloor>))"
      using cg by (simp add: resolveColumns_def Auto W g c Let_def)
    show ?thesis
    proof (cases "1 < \<lfloor>?x\<rfloor>")
      case True
      then have "fst (resolveColumns W opts) = Fin (of_int \<lfloor>?x\<rfloor>)"
        by (simp add: cnt Math_max2_def)
      moreover have "(of_int \<lfloor>?x\<rfloor> :: real) \<le> 4294967295"
        using fl by linarith
      moreover have "(1 :: real) \<le> of_int \<lfloor>?x\<rfloor>"
        using True by linarith
      moreover have "nat \<lfloor>?x\<rfloor> \<le> maxArgs"
        using lim True by linarith
      ultimately show ?thesis
        by simp
    next
      case False
      then have "fst (resolveColumns W opts) = Fin 1"
        by (simp add: cnt Math_max2_def)
      moreover have "1 \<le> maxArgs"
        using lim by simp
      ultimately show ?thesis
        by simp
    qed
  next
    case (Columns n)
    with cols obtain a where n: "n = Fin a" "of_int \<lfloor>a\<rfloor> = a" "1 \<le> a" "a \<le> 4294967295"
      "a \<le> real maxArgs"
      by (auto split: jsnum.splits)
    from n(5) have "\<lfloor>a\<rfloor> \<le> int maxArgs"
      by (simp add: floor_le_iff)
    then have "nat \<lfloor>a\<rfloor> \<le> maxArgs"
      by simp
    with n Columns show ?thesis
      by (simp add: resolveColumns_def)
  qed
qed

lemma addAt_length: "length (addAt xs k d) = length xs"
  by (simp add: addAt_def)

lemma placeMasonry_cover:
  "length hs \<le> maxArgs \<Longrightarrow>
   \<exists>new hs'. placeMasonry maxArgs colW g its hs bxs = Inr (bxs @ new, hs')
     \<and> length hs' = length hs \<and> length new = length its
     \<and> (\<forall>k < length its. box_width (new ! k) = colW
            \<and> box_height (new ! k) = js_div colW (ToNumber (aspectRatio (its ! k))))"
proof (induction its arbitrary: hs bxs)
  case Nil
  then show ?case by simp
next
  case (Cons it its)
  let ?b = "\<lparr>box_left = js_mul (Fin (of_int (indexOf hs (Math_min hs)))) (js_add colW g),
             box_top = Math_min hs, box_width = colW,
             box_height = js_div colW (ToNumber (aspectRatio it))\<rparr>"
  let ?hs = "addAt hs (indexOf hs (Math_min hs))
               (js_add (js_div colW (ToNumber (aspectRatio it))) g)"
  have "length ?hs \<le> maxArgs"
    using Cons.prems by (simp add: addAt_length)
  from Cons.IH [OF this, of "bxs @ [?b]"] obtain new hs' where
    new: "placeMasonry maxArgs colW g its ?hs (bxs @ [?b]) = Inr ((bxs @ [?b]) @ new, hs')"
      "length hs' = length ?hs" "length new = length its"
      "\<forall>k < length its. box_width (new ! k) = colW
            \<and> box_height (new ! k) = js_div colW (ToNumber (aspectRatio (its ! k)))"
    by blast
  have "placeMasonry maxArgs colW g (it # its) hs bxs = Inr (bxs @ (?b # new), hs')"
    using new(1) Cons.prems by (simp add: spreadCall_def Let_def)
  moreover have "length hs' = length hs"
    using new(2) by (simp add: addAt_length)
  moreover have "length (?b # new) = length (it # its)"
    using new(3) by simp
  moreover have "\<forall>k < length (it # its). box_width ((?b # new) ! k) = colW
            \<and> box_height ((?b # new) ! k)
                = js_div colW (ToNumber (aspectRatio ((it # its) ! k)))"
    using new(4) by (auto simp: nth_Cons split: nat.splits)
  ultimately show ?case
    by blast
qed

lemma placeMasonry_limit:
  "length hs \<le> m \<Longrightarrow> length hs \<le> m' \<Longrightarrow>
   placeMasonry m colW g its hs bxs = placeMasonry m' colW g its hs bxs"
proof (induction its arbitrary: hs bxs)
  case Nil
  then show ?case by simp
next
  case (Cons it its)
  let ?hs = "addAt hs (indexOf hs (Math_min hs))
               (js_add (js_div colW (ToNumber (aspectRatio it))) g)"
  have "length ?hs \<le> m" "length ?hs \<le> m'"
    using Cons.prems by (simp_all add: addAt_length)
  from Cons.IH [OF this] Cons.prems show ?case
    by (simp add: spreadCall_def Let_def)
qed

lemma computeMasonryLayout_limit:
  assumes "newArray (fst (resolveColumns W opts)) = Inr hs"
    and "length hs \<le> m" and "length hs \<le> m'"
  shows "computeMasonryLayout m its W opts = computeMasonryLayout m' its W opts"
proof -
  obtain colCount colW where rc: "resolveColumns W opts = (colCount, colW)"
    by (cases "resolveColumns W opts")
  with assms(1) have arr: "newArray colCount = Inr hs"
    by simp
  from placeMasonry_cover [OF assms(2), of colW "gap opts" its "[]"] obtain new hs' where
    run: "placeMasonry m colW (gap opts) its hs [] = Inr ([] @ new, hs')"
      "length hs' = length hs"
    by blast
  from run(1) placeMasonry_limit [OF assms(2,3), of colW "gap opts" its "[]"]
  have run': "placeMasonry m' colW (gap opts) its hs [] = Inr ([] @ new, hs')"
    by simp
  from run(2) assms(2,3) show ?thesis
    by (simp add: computeMasonryLayout_def rc arr run(1) run' spreadCall_def)
qed

lemma masonry_cover:
  assumes "validConfig maxArgs W opts"
  shows "\<exists>r. computeMasonryLayout maxArgs its W opts = Inr r \<and> length (boxes r) = length its
     \<and> (\<forall>k < length its. box_width (boxes r ! k) = snd (resolveColumns W opts)
          \<and> box_height (boxes r ! k)
              = js_div (snd (resolveColumns W opts)) (ToNumber (aspectRatio (its ! k))))"
proof -
  obtain colCount colW where rc: "resolveColumns W opts = (colCount, colW)"
    by (cases "resolveColumns W opts")
  from validConfig_columns [OF assms] rc obtain a where
    a: "colCount = Fin a" "of_int \<lfloor>a\<rfloor> = a" "1 \<le> a" "a \<le> 4294967295"
      "nat \<lfloor>a\<rfloor> \<le> maxArgs"
    by auto
  then have arr: "newArray colCount = Inr (replicate (nat \<lfloor>a\<rfloor>) (Fin 0))"
    by (simp add: newArray_ok)
  have len: "length (replicate (nat \<lfloor>a\<rfloor>) (Fin 0 :: jsnum)) \<le> maxArgs"
    using a(5) by simp
  from placeMasonry_cover [OF len, of colW "gap opts" its "[]"] obtain new hs' where
    run: "placeMasonry maxArgs colW (gap opts) its (replicate (nat \<lfloor>a\<rfloor>) (Fin 0)) []
            = Inr ([] @ new, hs')"
      "length hs' = length (replicate (nat \<lfloor>a\<rfloor>) (Fin 0 :: jsnum))"
      "length new = length its"
      "\<forall>k < length its. box_width (new ! k) = colW
        \<and> box_height (new ! k) = js_div colW (ToNumber (aspectRatio (its ! k)))"
    by blast
  have "computeMasonryLayout maxArgs its W opts
          = Inr \<lparr>boxes = new, containerHeight = Math_max hs'\<rparr>"
    using run(1,2) a(5) by (simp add: computeMasonryLayout_def rc arr spreadCall_def)
  with run(3,4) show ?thesis
    by (simp add: rc)
qed

lemma masonry_over_limit:
  assumes "newArray (fst (resolveColumns W opts)) = Inr hs" and "maxArgs < length hs"
  shows "computeMasonryLayout maxArgs its W opts = Inl RangeError"
proof -
  obtain colCount colW where rc: "resolveColumns W opts = (colCount, colW)"
    by (cases "resolveColumns W opts")
  with assms(1) have arr: "newArray colCount = Inr hs"
    by simp
  show ?thesis
  proof (cases its)
    case Nil
    with assms(2) show ?thesis
      by (simp add: computeMasonryLayout_def rc arr spreadCall_def)
  next
    case (Cons it rest)
    with assms(2) show ?thesis
      by (simp add: computeMasonryLayout_def rc arr spreadCall_def)
  qed
qed

lemma grid_cover:
  "length (boxes (computeGridLayout its W opts)) = length its
   \<and> (\<forall>k < length its. boxes (computeGridLayout its W opts) ! k
         = gridBox (fst (resolveColumns W opts)) (snd (resolveColumns W opts))
             (snd (resolveColumns W opts)) (gap opts) k)"
  by (simp add: computeGridLayout_def Let_def split: prod.splits)

section \<open>Properties of the visibility filter and of the diff loops\<close>

lemma setAdd_set: "set (setAdd xs x) = insert x (set xs)"
  by (auto simp: setAdd_def)

lemma collectVisible_set:
  "set (collectVisible bs startY endY acc)
     = set acc \<union> {itemIndex b | b. b \<in> set bs \<and> inBand b startY endY}"
  by (induction bs arbitrary: acc) (auto simp: setAdd_set)

lemma indexBoxes_length: "length (indexBoxes bxs) = length bxs"
  by (simp add: indexBoxes_def)

lemma indexBoxes_nth:
  "k < length bxs \<Longrightarrow>
   indexBoxes bxs ! k = \<lparr>box_left = box_left (bxs ! k), box_top = box_top (bxs ! k),
     box_width = box_width (bxs ! k), box_height = box_height (bxs ! k), itemIndex = k\<rparr>"
  by (simp add: indexBoxes_def nth_enumerate_eq)

lemma indexBoxes_itemIndex: "map itemIndex (indexBoxes bxs) = [0..<length bxs]"
  by (rule nth_equalityI) (simp_all add: indexBoxes_length indexBoxes_nth)

lemma resolveVisible_indexBoxes:
  "k \<in> set (resolveVisible (indexBoxes bxs) scrollTop viewportHeight containerTop buf)
   \<longleftrightarrow> k < length bxs
       \<and> js_gt (js_add (box_top (bxs ! k)) (box_height (bxs ! k)))
            (fst (visibleBand scrollTop viewportHeight containerTop buf))
       \<and> js_lt (box_top (bxs ! k))
            (snd (visibleBand scrollTop viewportHeight containerTop buf))"
proof -
  obtain startY endY where
    band: "visibleBand scrollTop viewportHeight containerTop buf = (startY, endY)"
    by (cases "visibleBand scrollTop viewportHeight containerTop buf")
  have "k \<in> set (collectVisible (indexBoxes bxs) startY endY [])
        \<longleftrightarrow> (\<exists>j < length bxs. itemIndex (indexBoxes bxs ! j) = k
                \<and> inBand (indexBoxes bxs ! j) startY endY)"
    by (auto simp: collectVisible_set in_set_conv_nth indexBoxes_length)
  also have "\<dots> \<longleftrightarrow> k < length bxs \<and> inBand (indexBoxes bxs ! k) startY endY"
    by (auto simp: indexBoxes_nth)
  also have "\<dots> \<longleftrightarrow> k < length bxs
       \<and> js_gt (js_add (box_top (bxs ! k)) (box_height (bxs ! k))) startY
       \<and> js_lt (box_top (bxs ! k)) endY"
    by (auto simp: indexBoxes_nth inBand_def)
  finally show ?thesis
    by (simp add: resolveVisible_def band)
qed

lemma visibleBand_finite:
  "visibleBand (Fin s) (Fin v) (Fin c) (Fin b)
     = (Fin (max 0 (s - c - b)), Fin (s - c + v + b))"
  by (simp add: visibleBand_def js_sub_def Math_max2_def max_def)

lemma mountNew_sets:
  "\<forall>k \<in> set toVisit. k < length geom \<Longrightarrow> map itemIndex geom = [0..<length geom]
   \<Longrightarrow> \<exists>rendered' mounted'.
         mountNew geom toVisit rendered mounted = Inr (rendered', mounted')
         \<and> set rendered' = set rendered \<union> set toVisit
         \<and> set mounted' = set mounted \<union> (set toVisit - set rendered)"
proof (induction toVisit arbitrary: rendered mounted)
  case Nil
  then show ?case by simp
next
  case (Cons index rest)
  have idx: "index < length geom" and rest: "\<forall>k \<in> set rest. k < length geom"
    using Cons.prems(1) by simp_all
  have "map itemIndex geom ! index = [0..<length geom] ! index"
    using Cons.prems(2) by simp
  with idx have same: "itemIndex (geom ! index) = index"
    by simp
  show ?case
  proof (cases "index \<in> set rendered")
    case True
    with Cons.IH [OF rest Cons.prems(2), of rendered mounted] show ?thesis
      by auto
  next
    case False
    with Cons.IH [OF rest Cons.prems(2), of "setAdd rendered index" "mounted @ [index]"]
      idx same
    show ?thesis
      by (auto simp: setAdd_set)
  qed
qed

lemma unmountOld_sets:
  "unmountOld toRender toVisit rendered unmounted = (rendered', unmounted')
   \<Longrightarrow> set rendered' = set rendered - (set toVisit - set toRender)
       \<and> set unmounted' = set unmounted \<union> (set toVisit - set toRender)"
proof (induction toVisit arbitrary: rendered unmounted)
  case Nil
  then show ?case by auto
next
  case (Cons index rest)
  show ?case
  proof (cases "index \<in> set toRender")
    case True
    with Cons.prems
    have "unmountOld toRender rest rendered unmounted = (rendered', unmounted')"
      by simp
    from Cons.IH [OF this] True show ?thesis
      by auto
  next
    case False
    with Cons.prems
    have "unmountOld toRender rest (removeAll index rendered) (unmounted @ [index])
            = (rendered', unmounted')"
      by simp
    from Cons.IH [OF this] False show ?thesis
      by auto
  qed
qed

section \<open>Properties of the normalization\<close>

lemma truthy_cases:
  "truthy x \<longleftrightarrow> (\<exists>a. x = Some (Fin a) \<and> a \<noteq> 0) \<or> x = Some PInf \<or> x = Some NInf"
  by (cases x rule: truthy.cases) auto

lemma normalize_truthy: "truthy (aspectRatio (normalizeItem it))"
  by (simp add: normalizeItem_def Let_def)

lemma normalize_keep:
  "truthy (aspectRatio it) \<Longrightarrow> aspectRatio (normalizeItem it) = aspectRatio it"
  by (simp add: normalizeItem_def Let_def)

lemma normalize_positive:
  assumes "notNegative (aspectRatio it)" "notNegative (item_width it)"
    "notNegative (item_height it)"
  shows "positive (aspectRatio (normalizeItem it))"
proof (cases "truthy (aspectRatio it)")
  case True
  with assms(1) show ?thesis
    by (auto simp: normalize_keep truthy_cases positive_def notNegative_def)
next
  case False
  show ?thesis
  proof (cases "truthy (item_width it) \<and> truthy (item_height it)")
    case True
    with False assms(2,3) show ?thesis
      by (auto simp: normalizeItem_def Let_def truthy_cases positive_def notNegative_def)
  next
    case no: False
    with False show ?thesis
      by (auto simp: normalizeItem_def Let_def positive_def)
  qed
qed

section \<open>Concrete scenarios\<close>

text \<open>
  Claim C1. Aspect ratios 1.5, 1 and 2 in a container of width 900 with gap 10, target
  row height 300 and last-row behaviour \<^verbatim>\<open>'left'\<close> (the defaults). The candidate rows
  that start at item 0 have the heights 600, 356 and 1760/9 (about 195.6); the scan keeps
  the break after item 1, whose height is nearest to 300; the first row holds items 0 and
  1 at height 356, and item 2 forms the last row, reset to height 300.
\<close>

theorem justified_scenario_A:
  "rowHeight (calculateRow [Fin (3 / 2), Fin 1, Fin 2] (Fin 900) (Fin 10) (Fin 300) 0 0)
     = Fin 600
   \<and> rowHeight (calculateRow [Fin (3 / 2), Fin 1, Fin 2] (Fin 900) (Fin 10) (Fin 300) 0 1)
     = Fin 356
   \<and> rowHeight (calculateRow [Fin (3 / 2), Fin 1, Fin 2] (Fin 900) (Fin 10) (Fin 300) 0 2)
     = Fin (1760 / 9)
   \<and> \<bar>1760 / 9 - 1956 / 10\<bar> < (1 / 10 :: real)
   \<and> scanRow [Fin (3 / 2), Fin 1, Fin 2] (Fin 900) (Fin 10) (Fin 300) 0 0 (Fin 0) None PInf
     = Some 1
   \<and> computeJustifiedLayout [ratioItem (3 / 2), ratioItem 1, ratioItem 2] (Fin 900) defaults
     = \<lparr>boxes =
         [\<lparr>box_left = Fin 0, box_top = Fin 0, box_width = Fin 534, box_height = Fin 356\<rparr>,
          \<lparr>box_left = Fin 544, box_top = Fin 0, box_width = Fin 356, box_height = Fin 356\<rparr>,
          \<lparr>box_left = Fin 0, box_top = Fin 366, box_width = Fin 600, box_height = Fin 300\<rparr>],
        containerHeight = Fin 676\<rparr>"
proof -
  have heights:
    "rowHeight (calculateRow [Fin (3 / 2), Fin 1, Fin 2] (Fin 900) (Fin 10) (Fin 300) 0 0)
       = Fin 600"
    "rowHeight (calculateRow [Fin (3 / 2), Fin 1, Fin 2] (Fin 900) (Fin 10) (Fin 300) 0 1)
       = Fin 356"
    "rowHeight (calculateRow [Fin (3 / 2), Fin 1, Fin 2] (Fin 900) (Fin 10) (Fin 300) 0 2)
       = Fin (1760 / 9)"
    by (simp_all add: calculateRow_def elementAt_def js_sub_def upt_rec)
  have near: "\<bar>1760 / 9 - 1956 / 10\<bar> < (1 / 10 :: real)"
    by simp
  have break:
    "scanRow [Fin (3 / 2), Fin 1, Fin 2] (Fin 900) (Fin 10) (Fin 300) 0 0 (Fin 0) None PInf
       = Some 1"
    by (simp add: scanRow.simps js_sub_def)
  have result:
    "computeJustifiedLayout [ratioItem (3 / 2), ratioItem 1, ratioItem 2] (Fin 900) defaults
       = \<lparr>boxes =
           [\<lparr>box_left = Fin 0, box_top = Fin 0, box_width = Fin 534, box_height = Fin 356\<rparr>,
            \<lparr>box_left = Fin 544, box_top = Fin 0, box_width = Fin 356, box_height = Fin 356\<rparr>,
            \<lparr>box_left = Fin 0, box_top = Fin 366, box_width = Fin 600, box_height = Fin 300\<rparr>],
          containerHeight = Fin 676\<rparr>"
    by (simp add: computeJustifiedLayout_def ratioItem_def defaults_def layoutRows.simps
        scanRow.simps finalRowHeight_def offsetX_def finalAspect_def totalGap_def
        js_sub_def rowSlice_def Let_def)
  from heights near break result show ?thesis
    by blast
qed

lemma masonry_scenario_B_columns:
  "newArray (fst (resolveColumns (Fin 620)
     (defaults\<lparr>layout := Masonry, gap := Fin 20, columns := Columns (Fin 2)\<rparr>)))
     = Inr [Fin 0, Fin 0]"
  by (simp add: resolveColumns_def newArray_def numeral_2_eq_2)

lemma masonry_scenario_B_run:
  "computeMasonryLayout 2 [ratioItem 1, ratioItem 1, ratioItem 1, ratioItem 1] (Fin 620)
     (defaults\<lparr>layout := Masonry, gap := Fin 20, columns := Columns (Fin 2)\<rparr>)
     = Inr \<lparr>boxes =
         [\<lparr>box_left = Fin 0, box_top = Fin 0, box_width = Fin 300, box_height = Fin 300\<rparr>,
          \<lparr>box_left = Fin 320, box_top = Fin 0, box_width = Fin 300, box_height = Fin 300\<rparr>,
          \<lparr>box_left = Fin 0, box_top = Fin 320, box_width = Fin 300, box_height = Fin 300\<rparr>,
          \<lparr>box_left = Fin 320, box_top = Fin 320, box_width = Fin 300, box_height = Fin 300\<rparr>],
        containerHeight = Fin 640\<rparr>"
  by code_simp

text \<open>
  Claim C3, as stated: four square items in two columns, container width 620, gap 20,
  on an engine that accepts 65536 arguments in a call. The stated result, with a
  container height of 620, is not what the masonry engine returns.
\<close>

theorem masonry_scenario_B_counterexample:
  "computeMasonryLayout 65536 [ratioItem 1, ratioItem 1, ratioItem 1, ratioItem 1] (Fin 620)
     (defaults\<lparr>layout := Masonry, gap := Fin 20, columns := Columns (Fin 2)\<rparr>)
   \<noteq> Inr \<lparr>boxes =
         [\<lparr>box_left = Fin 0, box_top = Fin 0, box_width = Fin 300, box_height = Fin 300\<rparr>,
          \<lparr>box_left = Fin 320, box_top = Fin 0, box_width = Fin 300, box_height = Fin 300\<rparr>,
          \<lparr>box_left = Fin 0, box_top = Fin 320, box_width = Fin 300, box_height = Fin 300\<rparr>,
          \<lparr>box_left = Fin 320, box_top = Fin 320, box_width = Fin 300, box_height = Fin 300\<rparr>],
        containerHeight = Fin 620\<rparr>"
proof -
  have "computeMasonryLayout 65536 [ratioItem 1, ratioItem 1, ratioItem 1, ratioItem 1] (Fin 620)
          (defaults\<lparr>layout := Masonry, gap := Fin 20, columns := Columns (Fin 2)\<rparr>)
        = computeMasonryLayout 2 [ratioItem 1, ratioItem 1, ratioItem 1, ratioItem 1] (Fin 620)
            (defaults\<lparr>layout := Masonry, gap := Fin 20, columns := Columns (Fin 2)\<rparr>)"
    by (rule computeMasonryLayout_limit [OF masonry_scenario_B_columns]) simp_all
  then show ?thesis
    by (simp add: masonry_scenario_B_run)
qed

text \<open>
  Claim C3, amended. The derived column width is 300; items 0 and 1 open the columns 0
  and 1 at top 0; item 2 goes to column 0 (the first of the two equal heights) at top
  320 and item 3 to column 1 at top 320; every placement adds the gap to its column, so
  both columns end at 640, which is the container height. This holds on every engine
  that accepts at least the two column heights as the arguments of one call.
\<close>

theorem masonry_scenario_B:
  assumes "2 \<le> maxArgs"
  shows "resolveColumns (Fin 620)
     (defaults\<lparr>layout := Masonry, gap := Fin 20, columns := Columns (Fin 2)\<rparr>)
     = (Fin 2, Fin 300)
   \<and> computeMasonryLayout maxArgs [ratioItem 1, ratioItem 1, ratioItem 1, ratioItem 1] (Fin 620)
     (defaults\<lparr>layout := Masonry, gap := Fin 20, columns := Columns (Fin 2)\<rparr>)
     = Inr \<lparr>boxes =
         [\<lparr>box_left = Fin 0, box_top = Fin 0, box_width = Fin 300, box_height = Fin 300\<rparr>,
          \<lparr>box_left = Fin 320, box_top = Fin 0, box_width = Fin 300, box_height = Fin 300\<rparr>,
          \<lparr>box_left = Fin 0, box_top = Fin 320, box_width = Fin 300, box_height = Fin 300\<rparr>,
          \<lparr>box_left = Fin 320, box_top = Fin 320, box_width = Fin 300, box_height = Fin 300\<rparr>],
        containerHeight = Fin 640\<rparr>"
proof -
  have cols: "resolveColumns (Fin 620)
     (defaults\<lparr>layout := Masonry, gap := Fin 20, columns := Columns (Fin 2)\<rparr>)
     = (Fin 2, Fin 300)"
    by (simp add: resolveColumns_def defaults_def js_sub_def)
  have "computeMasonryLayout maxArgs [ratioItem 1, ratioItem 1, ratioItem 1, ratioItem 1] (Fin 620)
          (defaults\<lparr>layout := Masonry, gap := Fin 20, columns := Columns (Fin 2)\<rparr>)
        = computeMasonryLayout 2 [ratioItem 1, ratioItem 1, ratioItem 1, ratioItem 1] (Fin 620)
            (defaults\<lparr>layout := Masonry, gap := Fin 20, columns := Columns (Fin 2)\<rparr>)"
    by (rule computeMasonryLayout_limit [OF masonry_scenario_B_columns]) (use assms in simp_all)
  with cols show ?thesis
    by (simp add: masonry_scenario_B_run)
qed

theorem masonry_scenario_B_witness:
  "(2 :: nat) \<le> 65536
   \<and> computeMasonryLayout 65536 [ratioItem 1, ratioItem 1, ratioItem 1, ratioItem 1] (Fin 620)
     (defaults\<lparr>layout := Masonry, gap := Fin 20, columns := Columns (Fin 2)\<rparr>)
     = Inr \<lparr>boxes =
         [\<lparr>box_left = Fin 0, box_top = Fin 0, box_width = Fin 300, box_height = Fin 300\<rparr>,
          \<lparr>box_left = Fin 320, box_top = Fin 0, box_width = Fin 300, box_height = Fin 300\<rparr>,
          \<lparr>box_left = Fin 0, box_top = Fin 320, box_width = Fin 300, box_height = Fin 300\<rparr>,
          \<lparr>box_left = Fin 320, box_top = Fin 320, box_width = Fin 300, box_height = Fin 300\<rparr>],
        containerHeight = Fin 640\<rparr>"
  using masonry_scenario_B [of 65536] by simp

section \<open>Coverage\<close>

text \<open>
  Claim C2. For a valid configuration and a last-row behaviour other than
  \<^verbatim>\<open>'hide'\<close>, each of the three engines returns exactly one box per item, in input
  order: box \<open>k\<close> is computed from item \<open>k\<close> (in the justified layout its width is its
  height times the aspect ratio of item \<open>k\<close>, in the masonry layout its height is the
  column width divided by that aspect ratio, in the grid it is the cell of index \<open>k\<close>),
  and the geometry that \<^verbatim>\<open>render\<close> stores numbers the boxes \<open>0, \<dots>, n - 1\<close>. Nothing is
  required of the items: the statement also holds for the empty list and for aspect
  ratios that are not positive. The masonry engine runs on an engine that accepts
  \<open>maxArgs\<close> arguments in a call, which the valid configuration respects.
\<close>

theorem coverage:
  assumes valid: "validConfig maxArgs W opts" and shown: "lastRowBehavior opts \<noteq> LastHide"
  shows "length (boxes (computeJustifiedLayout its W opts)) = length its
    \<and> (\<forall>k < length its.
          box_width (boxes (computeJustifiedLayout its W opts) ! k)
            = js_mul (box_height (boxes (computeJustifiedLayout its W opts) ! k))
                     (ToNumber (aspectRatio (its ! k))))
    \<and> (\<exists>r. computeMasonryLayout maxArgs its W opts = Inr r
          \<and> length (boxes r) = length its
          \<and> (\<forall>k < length its.
                box_width (boxes r ! k) = snd (resolveColumns W opts)
                \<and> box_height (boxes r ! k)
                    = js_div (snd (resolveColumns W opts)) (ToNumber (aspectRatio (its ! k)))))
    \<and> length (boxes (computeGridLayout its W opts)) = length its
    \<and> (\<forall>k < length its.
          boxes (computeGridLayout its W opts) ! k
            = gridBox (fst (resolveColumns W opts)) (snd (resolveColumns W opts))
                (snd (resolveColumns W opts)) (gap opts) k)
    \<and> (\<exists>r. computeLayout maxArgs its W opts = Inr r
          \<and> map itemIndex (indexBoxes (boxes r)) = [0..<length its])"
proof -
  let ?ars = "map (\<lambda>it. ToNumber (aspectRatio it)) its"
  let ?run = "layoutRows ?ars W (gap opts) (targetRowHeight opts) (lastRowBehavior opts) 0
                (Fin 0) []"
  have "ratioBoxes ?ars []"
    by (simp add: ratioBoxes_def)
  from layoutRows_cover [OF shown _ _ this, of 0 W "gap opts" "targetRowHeight opts" "Fin 0"]
  have run: "length (fst ?run) = length its" "ratioBoxes ?ars (fst ?run)"
    by simp_all
  have jboxes: "boxes (computeJustifiedLayout its W opts) = fst ?run"
    by (simp add: computeJustifiedLayout_def split: prod.splits)
  have j1: "length (boxes (computeJustifiedLayout its W opts)) = length its"
    using run(1) jboxes by simp
  have j2: "\<forall>k < length its.
          box_width (boxes (computeJustifiedLayout its W opts) ! k)
            = js_mul (box_height (boxes (computeJustifiedLayout its W opts) ! k))
                     (ToNumber (aspectRatio (its ! k)))"
    using run jboxes by (simp add: ratioBoxes_def)
  note m = masonry_cover [OF valid, of its]
  note g = grid_cover [of its W opts]
  have d: "\<exists>r. computeLayout maxArgs its W opts = Inr r
          \<and> map itemIndex (indexBoxes (boxes r)) = [0..<length its]"
  proof (cases "layout opts")
    case Justified
    with j1 show ?thesis
      by (simp add: computeLayout_def indexBoxes_itemIndex)
  next
    case Masonry
    with m show ?thesis
      by (auto simp: computeLayout_def indexBoxes_itemIndex)
  next
    case Grid
    with g show ?thesis
      by (simp add: computeLayout_def indexBoxes_itemIndex)
  qed
  from j1 j2 m g d show ?thesis
    by blast
qed

theorem coverage_witness:
  "validConfig 65536 (Fin 900) defaults \<and> lastRowBehavior defaults \<noteq> LastHide
   \<and> length (boxes (computeJustifiedLayout [ratioItem (3 / 2), ratioItem 1, ratioItem 2]
         (Fin 900) defaults)) = 3
   \<and> length (boxes (computeGridLayout [ratioItem (3 / 2), ratioItem 1, ratioItem 2]
         (Fin 900) defaults)) = 3
   \<and> (\<exists>r. computeMasonryLayout 65536 [ratioItem (3 / 2), ratioItem 1, ratioItem 2]
         (Fin 900) defaults = Inr r \<and> length (boxes r) = 3)"
proof -
  have valid: "validConfig 65536 (Fin 900) defaults"
    by (simp add: validConfig_def defaults_def)
  have shown: "lastRowBehavior defaults \<noteq> LastHide"
    by (simp add: defaults_def)
  from coverage [OF valid shown, of "[ratioItem (3 / 2), ratioItem 1, ratioItem 2]"]
    valid shown
  show ?thesis
    by auto
qed

section \<open>The last row under \<^verbatim>\<open>'hide'\<close>\<close>

text \<open>
  Claim C10, as stated: with \<^verbatim>\<open>'hide'\<close> every item has a box unless the final row
  is a strict partial row. Two items of aspect ratio 3 in a container of width 900 with
  target height 300: each item alone fills the width at exactly the target height, so
  the final row (item 1) is a full row, not a partial one; its natural height is the
  target and its width at the target height is the container width. All the same it is
  dropped: only item 0 has a box.
\<close>

theorem hide_counterexample:
  "rowHeight (calculateRow [Fin 3, Fin 3] (Fin 900) (Fin 10) (Fin 300) 1 1) = Fin 300
   \<and> js_add (js_mul (finalAspect [Fin 3, Fin 3] 1 1) (Fin 300)) (totalGap (Fin 10) 1 1)
       = Fin 900
   \<and> computeJustifiedLayout [ratioItem 3, ratioItem 3] (Fin 900)
       (defaults\<lparr>lastRowBehavior := LastHide\<rparr>)
     = \<lparr>boxes =
         [\<lparr>box_left = Fin 0, box_top = Fin 0, box_width = Fin 900, box_height = Fin 300\<rparr>],
        containerHeight = Fin 310\<rparr>"
proof -
  have "rowHeight (calculateRow [Fin 3, Fin 3] (Fin 900) (Fin 10) (Fin 300) 1 1) = Fin 300"
    by (simp add: calculateRow_def elementAt_def js_sub_def upt_rec)
  moreover have
    "js_add (js_mul (finalAspect [Fin 3, Fin 3] 1 1) (Fin 300)) (totalGap (Fin 10) 1 1)
       = Fin 900"
    by (simp add: finalAspect_def totalGap_def rowSlice_def)
  moreover have
    "computeJustifiedLayout [ratioItem 3, ratioItem 3] (Fin 900)
       (defaults\<lparr>lastRowBehavior := LastHide\<rparr>)
     = \<lparr>boxes =
         [\<lparr>box_left = Fin 0, box_top = Fin 0, box_width = Fin 900, box_height = Fin 300\<rparr>],
        containerHeight = Fin 310\<rparr>"
    by (simp add: computeJustifiedLayout_def ratioItem_def defaults_def layoutRows.simps
        scanRow.simps finalRowHeight_def offsetX_def finalAspect_def totalGap_def
        js_sub_def rowSlice_def Let_def)
  ultimately show ?thesis
    by blast
qed

text \<open>
  Claim C10, amended. With \<^verbatim>\<open>'hide'\<close> the loop stops at the row whose chosen break is
  the last item, whether that row is partial or not, and returns the boxes and the top
  accumulated so far. Compared with any other last-row behaviour, the boxes under
  \<^verbatim>\<open>'hide'\<close> are a prefix: the boxes of the earlier rows are the same, one per item
  and in input order; the boxes that are missing all lie in one row, whose top is the
  container height under \<^verbatim>\<open>'hide'\<close>, so that height excludes the dropped row; the
  items of that row have no box and no further row is produced.
\<close>

theorem hide_drops_final_row:
  assumes other: "bh \<noteq> LastHide"
  shows "\<exists>dropped.
      boxes (computeJustifiedLayout its W (opts\<lparr>lastRowBehavior := bh\<rparr>))
        = boxes (computeJustifiedLayout its W (opts\<lparr>lastRowBehavior := LastHide\<rparr>)) @ dropped
      \<and> (\<forall>d \<in> set dropped.
            box_top d
              = containerHeight (computeJustifiedLayout its W (opts\<lparr>lastRowBehavior := LastHide\<rparr>)))
      \<and> length (boxes (computeJustifiedLayout its W (opts\<lparr>lastRowBehavior := LastHide\<rparr>)))
           + length dropped = length its
      \<and> ratioBoxes (map (\<lambda>it. ToNumber (aspectRatio it)) its)
           (boxes (computeJustifiedLayout its W (opts\<lparr>lastRowBehavior := LastHide\<rparr>)))
      \<and> (dropped = [] \<longrightarrow>
            containerHeight (computeJustifiedLayout its W (opts\<lparr>lastRowBehavior := bh\<rparr>))
              = containerHeight
                  (computeJustifiedLayout its W (opts\<lparr>lastRowBehavior := LastHide\<rparr>)))
      \<and> (i < length ars \<and> scanRow ars W g T i i (Fin 0) None PInf = Some (length ars - 1)
          \<longrightarrow> layoutRows ars W g T LastHide i rtop bxs = (bxs, rtop))"
proof -
  let ?ars = "map (\<lambda>it. ToNumber (aspectRatio it)) its"
  let ?H = "layoutRows ?ars W (gap opts) (targetRowHeight opts) LastHide 0 (Fin 0) []"
  let ?F = "layoutRows ?ars W (gap opts) (targetRowHeight opts) bh 0 (Fin 0) []"
  have H: "computeJustifiedLayout its W (opts\<lparr>lastRowBehavior := LastHide\<rparr>)
             = \<lparr>boxes = fst ?H, containerHeight = snd ?H\<rparr>"
    by (simp add: computeJustifiedLayout_def split: prod.splits)
  have F: "computeJustifiedLayout its W (opts\<lparr>lastRowBehavior := bh\<rparr>)
             = \<lparr>boxes = fst ?F, containerHeight = snd ?F\<rparr>"
    by (simp add: computeJustifiedLayout_def split: prod.splits)
  have empty: "ratioBoxes ?ars []"
    by (simp add: ratioBoxes_def)
  from layoutRows_hide_prefix [OF other, of ?ars W "gap opts" "targetRowHeight opts" 0 "Fin 0" "[]"]
  obtain dropped where
    d: "fst ?F = fst ?H @ dropped" "\<forall>d \<in> set dropped. box_top d = snd ?H"
      "dropped = [] \<longrightarrow> snd ?F = snd ?H"
    by blast
  from layoutRows_cover [OF other _ _ empty, of 0 W "gap opts" "targetRowHeight opts" "Fin 0"]
  have "length (fst ?F) = length its"
    by simp
  with d(1) have len: "length (fst ?H) + length dropped = length its"
    by simp
  from layoutRows_hide_ratio [OF _ _ empty, of 0 W "gap opts" "targetRowHeight opts" "Fin 0"]
  have ratio: "ratioBoxes ?ars (fst ?H)"
    by simp
  have stop: "i < length ars \<and> scanRow ars W g T i i (Fin 0) None PInf = Some (length ars - 1)
          \<longrightarrow> layoutRows ars W g T LastHide i rtop bxs = (bxs, rtop)"
    using layoutRows_hide by blast
  from d len ratio stop show ?thesis
    unfolding H F by auto
qed

theorem hide_drops_final_row_witness:
  "LastLeft \<noteq> LastHide
   \<and> (\<exists>dropped.
        boxes (computeJustifiedLayout [ratioItem (3 / 2), ratioItem 1, ratioItem 2] (Fin 900)
                 (defaults\<lparr>lastRowBehavior := LastLeft\<rparr>))
          = boxes (computeJustifiedLayout [ratioItem (3 / 2), ratioItem 1, ratioItem 2] (Fin 900)
                     (defaults\<lparr>lastRowBehavior := LastHide\<rparr>)) @ dropped
        \<and> length (boxes (computeJustifiedLayout [ratioItem (3 / 2), ratioItem 1, ratioItem 2]
                     (Fin 900) (defaults\<lparr>lastRowBehavior := LastHide\<rparr>)))
             + length dropped = 3)
   \<and> computeJustifiedLayout [ratioItem (3 / 2), ratioItem 1, ratioItem 2] (Fin 900)
       (defaults\<lparr>lastRowBehavior := LastHide\<rparr>)
     = \<lparr>boxes =
         [\<lparr>box_left = Fin 0, box_top = Fin 0, box_width = Fin 534, box_height = Fin 356\<rparr>,
          \<lparr>box_left = Fin 544, box_top = Fin 0, box_width = Fin 356, box_height = Fin 356\<rparr>],
        containerHeight = Fin 366\<rparr>"
proof -
  have other: "LastLeft \<noteq> LastHide"
    by simp
  have run: "computeJustifiedLayout [ratioItem (3 / 2), ratioItem 1, ratioItem 2] (Fin 900)
       (defaults\<lparr>lastRowBehavior := LastHide\<rparr>)
     = \<lparr>boxes =
         [\<lparr>box_left = Fin 0, box_top = Fin 0, box_width = Fin 534, box_height = Fin 356\<rparr>,
          \<lparr>box_left = Fin 544, box_top = Fin 0, box_width = Fin 356, box_height = Fin 356\<rparr>],
        containerHeight = Fin 366\<rparr>"
    by (simp add: computeJustifiedLayout_def ratioItem_def defaults_def layoutRows.simps
        scanRow.simps finalRowHeight_def offsetX_def finalAspect_def totalGap_def
        js_sub_def rowSlice_def Let_def)
  from hide_drops_final_row [OF other,
      of "[ratioItem (3 / 2), ratioItem 1, ratioItem 2]" "Fin 900" defaults]
  obtain dropped where
    "boxes (computeJustifiedLayout [ratioItem (3 / 2), ratioItem 1, ratioItem 2] (Fin 900)
                 (defaults\<lparr>lastRowBehavior := LastLeft\<rparr>))
          = boxes (computeJustifiedLayout [ratioItem (3 / 2), ratioItem 1, ratioItem 2] (Fin 900)
                     (defaults\<lparr>lastRowBehavior := LastHide\<rparr>)) @ dropped"
    "length (boxes (computeJustifiedLayout [ratioItem (3 / 2), ratioItem 1, ratioItem 2]
                     (Fin 900) (defaults\<lparr>lastRowBehavior := LastHide\<rparr>)))
             + length dropped = length [ratioItem (3 / 2), ratioItem 1, ratioItem 2]"
    by blast
  then have "\<exists>dropped.
        boxes (computeJustifiedLayout [ratioItem (3 / 2), ratioItem 1, ratioItem 2] (Fin 900)
                 (defaults\<lparr>lastRowBehavior := LastLeft\<rparr>))
          = boxes (computeJustifiedLayout [ratioItem (3 / 2), ratioItem 1, ratioItem 2] (Fin 900)
                     (defaults\<lparr>lastRowBehavior := LastHide\<rparr>)) @ dropped
        \<and> length (boxes (computeJustifiedLayout [ratioItem (3 / 2), ratioItem 1, ratioItem 2]
                     (Fin 900) (defaults\<lparr>lastRowBehavior := LastHide\<rparr>)))
             + length dropped = 3"
    by auto
  with other run show ?thesis
    by blast
qed

section \<open>Rendering without virtualization\<close>

lemma updateVisibleItems_not_virtualized:
  "\<not> virtualize (gallery_options gal) \<Longrightarrow> updateVisibleItems gal vp = Inl TypeError"
  by (simp add: updateVisibleItems_def)

text \<open>
  Claim C4. A gallery constructed with \<^verbatim>\<open>virtualize: false\<close>, one item added, then
  rendered: the layout is computed, and the update of the visible items throws a
  TypeError instead of rendering every item, because it calls a method that the class
  does not have.
\<close>

theorem virtualize_disabled_throws:
  "constructor True (noOptions\<lparr>u_virtualize := Some False\<rparr>)
     = Inr \<lparr>gallery_options = defaults\<lparr>virtualize := False\<rparr>, gallery_items = [],
            geometry = [], renderedIndices = []\<rparr>
   \<and> render maxArgs \<lparr>gallery_options = defaults\<lparr>virtualize := False\<rparr>,
              gallery_items = addItems [] [ratioItem 1], geometry = [],
              renderedIndices = []\<rparr>
         (Fin 900) \<lparr>scrollY = Fin 0, innerHeight = Fin 800, rectTop = Fin 0\<rparr>
     = Inl TypeError"
  by (simp add: constructor_def init_def assign_def noOptions_def defaults_def render_def
      addItems_def computeLayout_def updateVisibleItems_def)

section \<open>Configuration\<close>

text \<open>
  Claim C5, as stated: a configuration with a target row height, a column width or an
  explicit column count that is not positive is rejected. It is not: the constructor
  accepts a target row height of \<open>-100\<close> and the justified engine then returns a box of
  height \<open>-100\<close> and a container height of \<open>-90\<close>; the grid engine with 0 columns returns
  boxes of infinite height; the grid engine with a column width of \<open>-310\<close> lays the
  items out in one column of width 900.
\<close>

theorem config_validation_counterexample:
  "constructor True (noOptions\<lparr>u_targetRowHeight := Some (Fin (- 100))\<rparr>)
     = Inr \<lparr>gallery_options = defaults\<lparr>targetRowHeight := Fin (- 100)\<rparr>, gallery_items = [],
            geometry = [], renderedIndices = []\<rparr>
   \<and> computeLayout 65536 [ratioItem 1] (Fin 900)
       (defaults\<lparr>targetRowHeight := Fin (- 100)\<rparr>)
     = Inr \<lparr>boxes =
         [\<lparr>box_left = Fin 0, box_top = Fin 0, box_width = Fin (- 100),
           box_height = Fin (- 100)\<rparr>],
        containerHeight = Fin (- 90)\<rparr>
   \<and> computeLayout 65536 [ratioItem 1, ratioItem 1] (Fin 900)
       (defaults\<lparr>layout := Grid, columns := Columns (Fin 0)\<rparr>)
     = Inr \<lparr>boxes =
         [\<lparr>box_left = NaN, box_top = NaN, box_width = PInf, box_height = PInf\<rparr>,
          \<lparr>box_left = NaN, box_top = PInf, box_width = PInf, box_height = PInf\<rparr>],
        containerHeight = PInf\<rparr>
   \<and> computeLayout 65536 [ratioItem 1, ratioItem 1] (Fin 900)
       (defaults\<lparr>layout := Grid, columnWidth := Fin (- 310)\<rparr>)
     = Inr \<lparr>boxes =
         [\<lparr>box_left = Fin 0, box_top = Fin 0, box_width = Fin 900, box_height = Fin 900\<rparr>,
          \<lparr>box_left = Fin 0, box_top = Fin 910, box_width = Fin 900, box_height = Fin 900\<rparr>],
        containerHeight = Fin 1810\<rparr>"
proof -
  have "constructor True (noOptions\<lparr>u_targetRowHeight := Some (Fin (- 100))\<rparr>)
     = Inr \<lparr>gallery_options = defaults\<lparr>targetRowHeight := Fin (- 100)\<rparr>, gallery_items = [],
            geometry = [], renderedIndices = []\<rparr>"
    by (simp add: constructor_def init_def assign_def noOptions_def defaults_def)
  moreover have
    "computeLayout 65536 [ratioItem 1] (Fin 900)
       (defaults\<lparr>targetRowHeight := Fin (- 100)\<rparr>)
     = Inr \<lparr>boxes =
         [\<lparr>box_left = Fin 0, box_top = Fin 0, box_width = Fin (- 100),
           box_height = Fin (- 100)\<rparr>],
        containerHeight = Fin (- 90)\<rparr>"
    by (simp add: computeLayout_def computeJustifiedLayout_def ratioItem_def defaults_def
        layoutRows.simps scanRow.simps finalRowHeight_def offsetX_def finalAspect_def
        totalGap_def js_sub_def rowSlice_def Let_def)
  moreover have
    "computeLayout 65536 [ratioItem 1, ratioItem 1] (Fin 900)
       (defaults\<lparr>layout := Grid, columns := Columns (Fin 0)\<rparr>)
     = Inr \<lparr>boxes =
         [\<lparr>box_left = NaN, box_top = NaN, box_width = PInf, box_height = PInf\<rparr>,
          \<lparr>box_left = NaN, box_top = PInf, box_width = PInf, box_height = PInf\<rparr>],
        containerHeight = PInf\<rparr>"
    by (simp add: computeLayout_def computeGridLayout_def resolveColumns_def gridBox_def
        defaults_def js_sub_def Let_def upt_rec)
  moreover have
    "computeLayout 65536 [ratioItem 1, ratioItem 1] (Fin 900)
       (defaults\<lparr>layout := Grid, columnWidth := Fin (- 310)\<rparr>)
     = Inr \<lparr>boxes =
         [\<lparr>box_left = Fin 0, box_top = Fin 0, box_width = Fin 900, box_height = Fin 900\<rparr>,
          \<lparr>box_left = Fin 0, box_top = Fin 910, box_width = Fin 900, box_height = Fin 900\<rparr>],
        containerHeight = Fin 1810\<rparr>"
    by (simp add: computeLayout_def computeGridLayout_def resolveColumns_def gridBox_def
        defaults_def js_sub_def Math_max2_def trunc_def Let_def upt_rec)
  ultimately show ?thesis
    by blast
qed

text \<open>
  Claim C5, amended. Nothing validates the layout options. The constructor does not read
  the target row height, the column width or the column count: whether it fails does not
  depend on them, and when it succeeds every supplied option is stored unchanged. The
  justified and the grid engine return a layout result for every configuration. The
  masonry engine throws when the allocation of its column array does, as for an explicit
  negative column count; with a column count of 0 it returns a result.
\<close>

theorem no_config_validation:
  "(constructor found (u\<lparr>u_targetRowHeight := t', u_columnWidth := c', u_columns := n'\<rparr>) = Inl e
      \<longleftrightarrow> constructor found u = Inl e)
   \<and> (constructor found u = Inr gal \<longrightarrow> gallery_options gal = assign defaults u)
   \<and> (u_targetRowHeight u = Some t \<longrightarrow> targetRowHeight (assign defaults u) = t)
   \<and> (u_columnWidth u = Some c \<longrightarrow> columnWidth (assign defaults u) = c)
   \<and> (u_columns u = Some n \<longrightarrow> columns (assign defaults u) = n)
   \<and> (layout opts \<noteq> Masonry \<longrightarrow> (\<exists>r. computeLayout maxArgs its W opts = Inr r))
   \<and> (layout opts = Masonry \<and> newArray (fst (resolveColumns W opts)) = Inl e'
        \<longrightarrow> computeLayout maxArgs its W opts = Inl e')
   \<and> (layout opts = Masonry \<and> columns opts = Columns (Fin a) \<and> a < 0 \<longrightarrow>
        computeLayout maxArgs its W opts = Inl RangeError)
   \<and> (layout opts = Masonry \<and> columns opts = Columns (Fin 0) \<longrightarrow>
        (\<exists>r. computeLayout maxArgs its W opts = Inr r))"
proof -
  have i: "constructor found (u\<lparr>u_targetRowHeight := t', u_columnWidth := c', u_columns := n'\<rparr>)
             = Inl e
           \<longleftrightarrow> constructor found u = Inl e"
    by (simp add: constructor_def init_def assign_def)
  have c: "constructor found u = Inr gal \<longrightarrow> gallery_options gal = assign defaults u"
    by (auto simp: constructor_def split: if_splits sum.splits)
  have s: "u_targetRowHeight u = Some t \<longrightarrow> targetRowHeight (assign defaults u) = t"
    "u_columnWidth u = Some c \<longrightarrow> columnWidth (assign defaults u) = c"
    "u_columns u = Some n \<longrightarrow> columns (assign defaults u) = n"
    by (simp_all add: assign_def)
  have j: "layout opts \<noteq> Masonry \<longrightarrow> (\<exists>r. computeLayout maxArgs its W opts = Inr r)"
    by (cases "layout opts") (simp_all add: computeLayout_def)
  have m: "layout opts = Masonry \<and> newArray (fst (resolveColumns W opts)) = Inl e'
        \<longrightarrow> computeLayout maxArgs its W opts = Inl e'"
    by (auto simp: computeLayout_def computeMasonryLayout_def split: prod.splits)
  have neg: "layout opts = Masonry \<and> columns opts = Columns (Fin a) \<and> a < 0 \<longrightarrow>
        computeLayout maxArgs its W opts = Inl RangeError"
    by (simp add: computeLayout_def computeMasonryLayout_def resolveColumns_def newArray_def)
  have zero: "layout opts = Masonry \<and> columns opts = Columns (Fin 0) \<longrightarrow>
        (\<exists>r. computeLayout maxArgs its W opts = Inr r)"
  proof (intro impI, elim conjE)
    assume mas: "layout opts = Masonry" and col: "columns opts = Columns (Fin 0)"
    obtain colW where rc: "resolveColumns W opts = (Fin 0, colW)"
      by (simp add: resolveColumns_def col)
    have arr: "newArray (Fin 0) = Inr []"
      by (simp add: newArray_def)
    from placeMasonry_cover [of "[]" maxArgs colW "gap opts" its "[]"] obtain new hs' where
      "placeMasonry maxArgs colW (gap opts) its [] [] = Inr ([] @ new, hs')"
      "length hs' = length ([] :: jsnum list)"
      by auto
    then show "\<exists>r. computeLayout maxArgs its W opts = Inr r"
      by (simp add: computeLayout_def mas computeMasonryLayout_def rc arr spreadCall_def)
  qed
  from i c s j m neg zero show ?thesis
    by blast
qed

theorem no_config_validation_witness:
  "u_targetRowHeight (noOptions\<lparr>u_targetRowHeight := Some (Fin 0)\<rparr>) = Some (Fin 0)
   \<and> targetRowHeight (assign defaults (noOptions\<lparr>u_targetRowHeight := Some (Fin 0)\<rparr>)) = Fin 0
   \<and> layout (defaults\<lparr>targetRowHeight := Fin 0\<rparr>) \<noteq> Masonry
   \<and> (\<exists>r. computeLayout 65536 [ratioItem 1] (Fin 900) (defaults\<lparr>targetRowHeight := Fin 0\<rparr>)
          = Inr r)
   \<and> layout (defaults\<lparr>layout := Masonry, columns := Columns (Fin (- 1))\<rparr>) = Masonry
   \<and> columns (defaults\<lparr>layout := Masonry, columns := Columns (Fin (- 1))\<rparr>)
       = Columns (Fin (- 1))
   \<and> (- 1 :: real) < 0
   \<and> computeLayout 65536 [ratioItem 1] (Fin 900)
        (defaults\<lparr>layout := Masonry, columns := Columns (Fin (- 1))\<rparr>) = Inl RangeError"
proof -
  have h1: "u_targetRowHeight (noOptions\<lparr>u_targetRowHeight := Some (Fin 0)\<rparr>) = Some (Fin 0)"
    by simp
  have h2: "layout (defaults\<lparr>targetRowHeight := Fin 0\<rparr>) \<noteq> Masonry"
    by (simp add: defaults_def)
  have h3: "layout (defaults\<lparr>layout := Masonry, columns := Columns (Fin (- 1))\<rparr>) = Masonry"
    "columns (defaults\<lparr>layout := Masonry, columns := Columns (Fin (- 1))\<rparr>)
       = Columns (Fin (- 1))"
    "(- 1 :: real) < 0"
    by simp_all
  from no_config_validation [where u = "noOptions\<lparr>u_targetRowHeight := Some (Fin 0)\<rparr>"
      and t = "Fin 0" and opts = "defaults\<lparr>targetRowHeight := Fin 0\<rparr>"
      and its = "[ratioItem 1]" and W = "Fin 900" and maxArgs = 65536] h1 h2
  have a: "targetRowHeight (assign defaults (noOptions\<lparr>u_targetRowHeight := Some (Fin 0)\<rparr>))
             = Fin 0"
    "\<exists>r. computeLayout 65536 [ratioItem 1] (Fin 900) (defaults\<lparr>targetRowHeight := Fin 0\<rparr>)
          = Inr r"
    by blast+
  from no_config_validation [where
      opts = "defaults\<lparr>layout := Masonry, columns := Columns (Fin (- 1))\<rparr>"
      and its = "[ratioItem 1]" and W = "Fin 900" and a = "- 1" and maxArgs = 65536] h3
  have b: "computeLayout 65536 [ratioItem 1] (Fin 900)
        (defaults\<lparr>layout := Masonry, columns := Columns (Fin (- 1))\<rparr>) = Inl RangeError"
    by blast
  from h1 h2 h3 a b show ?thesis
    by blast
qed

section \<open>Empty input\<close>

lemma justified_empty:
  "computeJustifiedLayout [] W opts = \<lparr>boxes = [], containerHeight = Fin 0\<rparr>"
  by (simp add: computeJustifiedLayout_def layoutRows_done)

lemma Math_max_zeros: "Math_max (Fin 0 # replicate n (Fin 0)) = Fin 0"
proof -
  have "foldl Math_max2 (Fin 0) (replicate n (Fin 0)) = Fin 0"
    by (induction n) (simp_all add: Math_max2_def)
  then show ?thesis
    by (simp add: Math_max_def Math_max2_def)
qed

lemma masonry_empty:
  assumes "validConfig maxArgs W opts"
  shows "computeMasonryLayout maxArgs [] W opts = Inr \<lparr>boxes = [], containerHeight = Fin 0\<rparr>"
proof -
  obtain colCount colW where rc: "resolveColumns W opts = (colCount, colW)"
    by (cases "resolveColumns W opts")
  from validConfig_columns [OF assms] rc obtain a where
    a: "colCount = Fin a" "of_int \<lfloor>a\<rfloor> = a" "1 \<le> a" "a \<le> 4294967295"
      "nat \<lfloor>a\<rfloor> \<le> maxArgs"
    by auto
  then have "0 < nat \<lfloor>a\<rfloor>"
    by linarith
  then obtain n where n: "nat \<lfloor>a\<rfloor> = Suc n"
    by (cases "nat \<lfloor>a\<rfloor>") simp_all
  from a have "newArray colCount = Inr (replicate (Suc n) (Fin 0))"
    by (simp add: newArray_ok n)
  moreover have "Suc n \<le> maxArgs"
    using a(5) n by simp
  ultimately show ?thesis
    by (simp add: computeMasonryLayout_def rc spreadCall_def Math_max_zeros)
qed

lemma resolveColumns_width:
  "snd (resolveColumns W opts)
     = js_div (js_sub W (js_mul (js_sub (fst (resolveColumns W opts)) (Fin 1)) (gap opts)))
              (fst (resolveColumns W opts))"
  by (simp add: resolveColumns_def Let_def split: column_spec.splits)

lemma grid_empty:
  assumes "validConfig maxArgs W opts" and g: "gap opts = Fin g"
  shows "computeGridLayout [] W opts = \<lparr>boxes = [], containerHeight = Fin (- g)\<rparr>"
proof -
  from validConfig_columns [OF assms(1)] obtain a where
    a: "fst (resolveColumns W opts) = Fin a" "1 \<le> a"
    by blast
  from assms(1) obtain w where W: "W = Fin w"
    by (auto simp: validConfig_def split: jsnum.splits)
  have nz: "a \<noteq> 0"
    using a(2) by simp
  have "snd (resolveColumns W opts)
          = js_div (js_sub (Fin w) (js_mul (js_sub (Fin a) (Fin 1)) (Fin g))) (Fin a)"
    using resolveColumns_width [of W opts] a(1) by (simp add: W g)
  with nz have "snd (resolveColumns W opts) = Fin ((w - (a - 1) * g) / a)"
    by (simp add: js_sub_def)
  with a nz show ?thesis
    by (cases "resolveColumns W opts") (simp add: computeGridLayout_def g js_sub_def)
qed

text \<open>
  Claim C6, as stated: for the empty list every engine returns a container height of 0.
  The grid engine, called with the empty list and the default options, returns a
  container height of \<open>-10\<close>.
\<close>

theorem grid_empty_height:
  "computeGridLayout [] (Fin 900) (defaults\<lparr>layout := Grid\<rparr>)
     = \<lparr>boxes = [], containerHeight = Fin (- 10)\<rparr>"
  by (simp add: computeGridLayout_def resolveColumns_def defaults_def js_sub_def
      Math_max2_def Let_def)

text \<open>
  Claim C6, amended. Empty input is not an error. \<^verbatim>\<open>render\<close> returns at once when
  there is no item: it calls no engine and changes nothing. Called with the empty list
  and a valid configuration, the justified and the masonry engine return no box and a
  container height of 0, and the grid engine returns no box and the height of its
  formula at zero rows, \<open>0 \<cdot> (itemH + gap) - gap\<close>, which is the negated gap: 0 for a gap
  of 0 and negative for a positive gap.
\<close>

theorem empty_input:
  assumes valid: "validConfig maxArgs W opts" and g: "gap opts = Fin g"
  shows "(gallery_items gal = [] \<longrightarrow>
            render maxArgs gal clientWidth vp
              = Inr (gal, \<lparr>rendered_after = renderedIndices gal, mountList = [],
                           unmountList = []\<rparr>))
    \<and> computeJustifiedLayout [] W opts = \<lparr>boxes = [], containerHeight = Fin 0\<rparr>
    \<and> computeMasonryLayout maxArgs [] W opts = Inr \<lparr>boxes = [], containerHeight = Fin 0\<rparr>
    \<and> computeGridLayout [] W opts = \<lparr>boxes = [], containerHeight = Fin (- g)\<rparr>"
  using justified_empty masonry_empty [OF valid] grid_empty [OF valid g]
  by (simp add: render_def)

theorem empty_input_witness:
  "render 65536 \<lparr>gallery_options = defaults\<lparr>layout := Grid\<rparr>, gallery_items = [],
                  geometry = [], renderedIndices = []\<rparr>
       (Fin 900) \<lparr>scrollY = Fin 0, innerHeight = Fin 800, rectTop = Fin 0\<rparr>
     = Inr (\<lparr>gallery_options = defaults\<lparr>layout := Grid\<rparr>, gallery_items = [],
              geometry = [], renderedIndices = []\<rparr>,
            \<lparr>rendered_after = [], mountList = [], unmountList = []\<rparr>)
   \<and> computeJustifiedLayout [] (Fin 900) (defaults\<lparr>layout := Grid\<rparr>)
       = \<lparr>boxes = [], containerHeight = Fin 0\<rparr>
   \<and> computeMasonryLayout 65536 [] (Fin 900) (defaults\<lparr>layout := Grid\<rparr>)
       = Inr \<lparr>boxes = [], containerHeight = Fin 0\<rparr>
   \<and> computeGridLayout [] (Fin 900) (defaults\<lparr>layout := Grid\<rparr>)
       = \<lparr>boxes = [], containerHeight = Fin (- 10)\<rparr>"
proof -
  have valid: "validConfig 65536 (Fin 900) (defaults\<lparr>layout := Grid\<rparr>)"
    by (simp add: validConfig_def defaults_def)
  have g: "gap (defaults\<lparr>layout := Grid\<rparr>) = Fin 10"
    by (simp add: defaults_def)
  from empty_input [OF valid g,
      of "\<lparr>gallery_options = defaults\<lparr>layout := Grid\<rparr>, gallery_items = [],
           geometry = [], renderedIndices = []\<rparr>"
         "Fin 900" "\<lparr>scrollY = Fin 0, innerHeight = Fin 800, rectTop = Fin 0\<rparr>"]
  show ?thesis
    by simp
qed

section \<open>Ingestion\<close>

text \<open>
  Claim C7, as stated: every stored aspect ratio is positive, and a supplied aspect ratio
  that is not positive is replaced by 1. A supplied aspect ratio of \<open>-2\<close> is stored as it
  is; a supplied aspect ratio of 0 with a width of 800 and a height of 600 is replaced by
  4/3, not by 1.
\<close>

theorem addItems_normalization_counterexample:
  "aspectRatio (normalizeItem (ratioItem (- 2))) = Some (Fin (- 2))
   \<and> \<not> positive (aspectRatio (normalizeItem (ratioItem (- 2))))
   \<and> aspectRatio (normalizeItem \<lparr>src = [], item_width = Some (Fin 800),
         item_height = Some (Fin 600), aspectRatio = Some (Fin 0)\<rparr>) = Some (Fin (4 / 3))"
  by (simp add: normalizeItem_def ratioItem_def positive_def Let_def)

text \<open>
  Claim C7, amended. The stored aspect ratio is never missing, zero or NaN. A supplied
  aspect ratio that is truthy (neither zero nor NaN) is kept, also a negative one. When
  the supplied aspect ratio is falsy (missing, zero or NaN) and width and height are both
  truthy, the stored ratio is their quotient if that quotient is truthy and 1 if it is
  not; when width or height is falsy it is 1. The stored ratio is positive whenever none
  of the supplied numbers is negative. \<^verbatim>\<open>addItems\<close> appends the normalized items and
  cannot fail.
\<close>

theorem addItems_normalization:
  "truthy (aspectRatio (normalizeItem it))
   \<and> (truthy (aspectRatio it) \<longrightarrow> aspectRatio (normalizeItem it) = aspectRatio it)
   \<and> (\<not> truthy (aspectRatio it) \<and> truthy (item_width it) \<and> truthy (item_height it)
       \<longrightarrow> aspectRatio (normalizeItem it)
             = (if truthy (Some (js_div (ToNumber (item_width it)) (ToNumber (item_height it))))
                then Some (js_div (ToNumber (item_width it)) (ToNumber (item_height it)))
                else Some (Fin 1)))
   \<and> (\<not> truthy (aspectRatio it) \<and> \<not> (truthy (item_width it) \<and> truthy (item_height it))
       \<longrightarrow> aspectRatio (normalizeItem it) = Some (Fin 1))
   \<and> (notNegative (aspectRatio it) \<and> notNegative (item_width it) \<and> notNegative (item_height it)
       \<longrightarrow> positive (aspectRatio (normalizeItem it)))
   \<and> addItems stored new = stored @ map normalizeItem new
   \<and> (\<forall>x \<in> set (addItems [] new). truthy (aspectRatio x))"
proof -
  have "\<not> truthy (aspectRatio it) \<and> truthy (item_width it) \<and> truthy (item_height it)
       \<longrightarrow> aspectRatio (normalizeItem it)
             = (if truthy (Some (js_div (ToNumber (item_width it)) (ToNumber (item_height it))))
                then Some (js_div (ToNumber (item_width it)) (ToNumber (item_height it)))
                else Some (Fin 1))"
    by (simp add: normalizeItem_def Let_def)
  moreover have
    "\<not> truthy (aspectRatio it) \<and> \<not> (truthy (item_width it) \<and> truthy (item_height it))
       \<longrightarrow> aspectRatio (normalizeItem it) = Some (Fin 1)"
    by (auto simp: normalizeItem_def Let_def)
  moreover have "\<forall>x \<in> set (addItems [] new). truthy (aspectRatio x)"
    by (auto simp: addItems_def normalize_truthy)
  ultimately show ?thesis
    using normalize_truthy normalize_keep normalize_positive
    by (simp add: addItems_def)
qed

theorem addItems_normalization_witness:
  "\<not> truthy (aspectRatio \<lparr>src = [], item_width = Some (Fin 1200),
        item_height = Some (Fin 800), aspectRatio = None\<rparr>)
   \<and> aspectRatio (normalizeItem \<lparr>src = [], item_width = Some (Fin 1200),
        item_height = Some (Fin 800), aspectRatio = None\<rparr>) = Some (Fin (3 / 2))
   \<and> positive (aspectRatio (normalizeItem \<lparr>src = [], item_width = Some (Fin 1200),
        item_height = Some (Fin 800), aspectRatio = None\<rparr>))
   \<and> truthy (aspectRatio (normalizeItem \<lparr>src = [], item_width = Some (Fin 1200),
        item_height = Some (Fin 800), aspectRatio = None\<rparr>))"
  using addItems_normalization [of "\<lparr>src = [], item_width = Some (Fin 1200),
        item_height = Some (Fin 800), aspectRatio = None\<rparr>"]
  by (simp add: notNegative_def positive_def)

section \<open>Visibility\<close>

text \<open>
  Claim C8. For finite numbers the visible band runs from
  \<open>max 0 (scroll - containerTop - buffer)\<close> to \<open>scroll - containerTop + viewportHeight + buffer\<close>.
  For the geometry that \<^verbatim>\<open>render\<close> stores, an index is returned if and only if it is
  the index of a box whose bottom edge is strictly below the start of the band and whose
  top edge is strictly above its end. With a buffer of 50 and the container at 0, a box
  at top 1000 of height 200 is visible at scroll 900 with a viewport of 500 (band 850 to
  1450) and not visible at scroll 1300 (band 1250 to 1850).
\<close>

theorem visibility_predicate:
  "visibleBand (Fin s) (Fin v) (Fin c) (Fin b)
     = (Fin (max 0 (s - c - b)), Fin (s - c + v + b))
   \<and> (k \<in> set (resolveVisible (indexBoxes bxs) scrollTop viewportHeight containerTop buf)
      \<longleftrightarrow> k < length bxs
          \<and> js_gt (js_add (box_top (bxs ! k)) (box_height (bxs ! k)))
               (fst (visibleBand scrollTop viewportHeight containerTop buf))
          \<and> js_lt (box_top (bxs ! k))
               (snd (visibleBand scrollTop viewportHeight containerTop buf)))
   \<and> visibleBand (Fin 900) (Fin 500) (Fin 0) (Fin 50) = (Fin 850, Fin 1450)
   \<and> resolveVisible
        (indexBoxes [\<lparr>box_left = Fin 0, box_top = Fin 1000, box_width = Fin 300,
                      box_height = Fin 200\<rparr>])
        (Fin 900) (Fin 500) (Fin 0) (Fin 50) = [0]
   \<and> visibleBand (Fin 1300) (Fin 500) (Fin 0) (Fin 50) = (Fin 1250, Fin 1850)
   \<and> resolveVisible
        (indexBoxes [\<lparr>box_left = Fin 0, box_top = Fin 1000, box_width = Fin 300,
                      box_height = Fin 200\<rparr>])
        (Fin 1300) (Fin 500) (Fin 0) (Fin 50) = []"
proof -
  have bands: "visibleBand (Fin 900) (Fin 500) (Fin 0) (Fin 50) = (Fin 850, Fin 1450)"
    "visibleBand (Fin 1300) (Fin 500) (Fin 0) (Fin 50) = (Fin 1250, Fin 1850)"
    by (simp_all add: visibleBand_finite)
  have "resolveVisible
        (indexBoxes [\<lparr>box_left = Fin 0, box_top = Fin 1000, box_width = Fin 300,
                      box_height = Fin 200\<rparr>])
        (Fin 900) (Fin 500) (Fin 0) (Fin 50) = [0]"
    by (simp add: resolveVisible_def bands indexBoxes_def inBand_def js_gt_def setAdd_def)
  moreover have "resolveVisible
        (indexBoxes [\<lparr>box_left = Fin 0, box_top = Fin 1000, box_width = Fin 300,
                      box_height = Fin 200\<rparr>])
        (Fin 1300) (Fin 500) (Fin 0) (Fin 50) = []"
    by (simp add: resolveVisible_def bands indexBoxes_def inBand_def js_gt_def setAdd_def)
  ultimately show ?thesis
    using bands visibleBand_finite resolveVisible_indexBoxes by simp
qed

section \<open>The diff of the rendered set\<close>

text \<open>
  Claim C9. The geometry numbers its boxes by position, as \<^verbatim>\<open>render\<close> stores it, and
  the indices to render are indices of the geometry, as the visibility filter returns
  them. Then for every rendered set the diff succeeds; it mounts exactly the indices to
  render that were not rendered, unmounts exactly the rendered indices that are not to
  render, leaves the rendered set equal to the set to render, and mounts no index that it
  unmounts.
\<close>

theorem diff_correct:
  assumes indexed: "map itemIndex geom = [0..<length geom]"
    and inRange: "\<forall>k \<in> set toRender. k < length geom"
  shows "\<exists>d. applyDiff geom rendered toRender = Inr d
           \<and> set (mountList d) = set toRender - set rendered
           \<and> set (unmountList d) = set rendered - set toRender
           \<and> set (rendered_after d) = set toRender
           \<and> set (mountList d) \<inter> set (unmountList d) = {}"
proof -
  obtain rendered1 mounted where
    m: "mountNew geom toRender rendered [] = Inr (rendered1, mounted)"
    and r1: "set rendered1 = set rendered \<union> set toRender"
    and ms: "set mounted = set toRender - set rendered"
    using mountNew_sets [OF inRange indexed, of rendered "[]"] by auto
  obtain rendered2 unmounted where
    u: "unmountOld toRender rendered1 rendered1 [] = (rendered2, unmounted)"
    by (cases "unmountOld toRender rendered1 rendered1 []")
  from unmountOld_sets [OF u] r1
  have r2: "set rendered2 = set toRender" and us: "set unmounted = set rendered - set toRender"
    by auto
  have "applyDiff geom rendered toRender
          = Inr \<lparr>rendered_after = rendered2, mountList = mounted, unmountList = unmounted\<rparr>"
    by (simp add: applyDiff_def m u)
  with r2 us ms show ?thesis
    by auto
qed

theorem diff_correct_witness:
  "map itemIndex (indexBoxes [\<lparr>box_left = Fin 0, box_top = Fin 0, box_width = Fin 300,
                                box_height = Fin 300\<rparr>,
                              \<lparr>box_left = Fin 0, box_top = Fin 310, box_width = Fin 300,
                                box_height = Fin 300\<rparr>,
                              \<lparr>box_left = Fin 0, box_top = Fin 620, box_width = Fin 300,
                                box_height = Fin 300\<rparr>])
     = [0..<length (indexBoxes [\<lparr>box_left = Fin 0, box_top = Fin 0, box_width = Fin 300,
                                box_height = Fin 300\<rparr>,
                              \<lparr>box_left = Fin 0, box_top = Fin 310, box_width = Fin 300,
                                box_height = Fin 300\<rparr>,
                              \<lparr>box_left = Fin 0, box_top = Fin 620, box_width = Fin 300,
                                box_height = Fin 300\<rparr>])]
   \<and> (\<exists>d. applyDiff (indexBoxes [\<lparr>box_left = Fin 0, box_top = Fin 0, box_width = Fin 300,
                                box_height = Fin 300\<rparr>,
                              \<lparr>box_left = Fin 0, box_top = Fin 310, box_width = Fin 300,
                                box_height = Fin 300\<rparr>,
                              \<lparr>box_left = Fin 0, box_top = Fin 620, box_width = Fin 300,
                                box_height = Fin 300\<rparr>]) [0, 1] [1, 2] = Inr d
          \<and> set (mountList d) = {2} \<and> set (unmountList d) = {0}
          \<and> set (rendered_after d) = {1, 2})"
proof -
  let ?geom = "indexBoxes [\<lparr>box_left = Fin 0, box_top = Fin 0, box_width = Fin 300,
                                box_height = Fin 300\<rparr>,
                              \<lparr>box_left = Fin 0, box_top = Fin 310, box_width = Fin 300,
                                box_height = Fin 300\<rparr>,
                              \<lparr>box_left = Fin 0, box_top = Fin 620, box_width = Fin 300,
                                box_height = Fin 300\<rparr>]"
  have indexed: "map itemIndex ?geom = [0..<length ?geom]"
    by (simp add: indexBoxes_itemIndex indexBoxes_length)
  have inRange: "\<forall>k \<in> set [1, 2]. k < length ?geom"
    by (simp add: indexBoxes_length)
  from diff_correct [OF indexed inRange, of "[0, 1]"] obtain d where
    d: "applyDiff ?geom [0, 1] [1, 2] = Inr d"
      "set (mountList d) = set [1, 2] - set [0, 1]"
      "set (unmountList d) = set [0, 1] - set [1, 2]"
      "set (rendered_after d) = set [1, 2]"
    by blast
  have "set [1, 2] - set [0, 1] = {2 :: nat}" "set [0, 1] - set [1, 2] = {0 :: nat}"
    "set [1, 2] = {1, 2 :: nat}"
    by auto
  with d have "\<exists>d. applyDiff ?geom [0, 1] [1, 2] = Inr d
          \<and> set (mountList d) = {2} \<and> set (unmountList d) = {0}
          \<and> set (rendered_after d) = {1, 2}"
    by auto
  with indexed inRange show ?thesis
    by blast
qed

text \<open>
  The visibility filter meets the two conditions of the diff: on the geometry of
  \<^verbatim>\<open>render\<close> an update of the visible items succeeds and leaves the rendered set
  equal to the visible set.
\<close>

lemma updateVisibleItems_diff:
  assumes "virtualize (gallery_options gal)" and "geometry gal = indexBoxes bxs"
  shows "\<exists>gal' d. updateVisibleItems gal vp = Inr (gal', d)
           \<and> set (renderedIndices gal')
               = set (resolveVisible (geometry gal) (scrollY vp) (innerHeight vp)
                        (js_add (rectTop vp) (scrollY vp)) (buffer (gallery_options gal)))
           \<and> set (mountList d) = set (renderedIndices gal') - set (renderedIndices gal)
           \<and> set (unmountList d) = set (renderedIndices gal) - set (renderedIndices gal')"
proof -
  let ?V = "resolveVisible (geometry gal) (scrollY vp) (innerHeight vp)
              (js_add (rectTop vp) (scrollY vp)) (buffer (gallery_options gal))"
  have indexed: "map itemIndex (geometry gal) = [0..<length (geometry gal)]"
    by (simp add: assms(2) indexBoxes_itemIndex indexBoxes_length)
  have inRange: "\<forall>k \<in> set ?V. k < length (geometry gal)"
    by (simp add: assms(2) resolveVisible_indexBoxes indexBoxes_length)
  from mountNew_sets [OF inRange indexed, of "renderedIndices gal" "[]"]
  obtain rendered1 mounted where
    m: "mountNew (geometry gal) ?V (renderedIndices gal) [] = Inr (rendered1, mounted)"
    and r1: "set rendered1 = set (renderedIndices gal) \<union> set ?V"
    and ms: "set mounted = set ?V - set (renderedIndices gal)"
    by auto
  obtain rendered2 unmounted where
    u: "unmountOld ?V rendered1 rendered1 [] = (rendered2, unmounted)"
    by (cases "unmountOld ?V rendered1 rendered1 []")
  from unmountOld_sets [OF u] r1
  have r2: "set rendered2 = set ?V"
    and us: "set unmounted = set (renderedIndices gal) - set ?V"
    by auto
  have "updateVisibleItems gal vp
          = Inr (gal\<lparr>renderedIndices := rendered2\<rparr>,
                 \<lparr>rendered_after = rendered2, mountList = mounted, unmountList = unmounted\<rparr>)"
    using assms(1) by (simp add: updateVisibleItems_def applyDiff_def Let_def m u)
  with r2 us ms show ?thesis
    by auto
qed

end
